theory Spec2Isabelle
  imports Complex_Main
begin

section \<open>Values\<close>

text \<open>
  An element of a torch tensor, and a Python float: the IEEE special values are kept
  apart, a finite value is a real number. The cast to 32-bit floats rounds and
  overflows as binary32 does; the arithmetic after it is exact on finite values (its
  rounding and overflow are not modelled), and the two zeros are one value: none of the
  operations of \<^verbatim>\<open>monai/metrics/regression.py\<close> tells them apart.
\<close>

datatype fval = Fin real | PInf | NInf | NaN

fun isnan :: "fval \<Rightarrow> bool" where
  "isnan NaN = True"
| "isnan _ = False"

fun isfinite :: "fval \<Rightarrow> bool" where
  "isfinite (Fin _) = True"
| "isfinite _ = False"

fun fneg :: "fval \<Rightarrow> fval" where
  "fneg (Fin a) = Fin (- a)"
| "fneg PInf = NInf"
| "fneg NInf = PInf"
| "fneg NaN = NaN"

fun fadd :: "fval \<Rightarrow> fval \<Rightarrow> fval" where
  "fadd (Fin a) (Fin b) = Fin (a + b)"
| "fadd NaN _ = NaN"
| "fadd _ NaN = NaN"
| "fadd PInf NInf = NaN"
| "fadd NInf PInf = NaN"
| "fadd PInf _ = PInf"
| "fadd _ PInf = PInf"
| "fadd NInf _ = NInf"
| "fadd _ NInf = NInf"

definition fsub :: "fval \<Rightarrow> fval \<Rightarrow> fval" where
  "fsub a b = fadd a (fneg b)"

text \<open>The sign of a product with an infinite factor; zero times infinity is NaN.\<close>

definition signed_inf :: "real \<Rightarrow> bool \<Rightarrow> fval" where
  "signed_inf a positive =
     (if a = 0 then NaN else if (0 < a) = positive then PInf else NInf)"

fun fmul :: "fval \<Rightarrow> fval \<Rightarrow> fval" where
  "fmul (Fin a) (Fin b) = Fin (a * b)"
| "fmul NaN _ = NaN"
| "fmul _ NaN = NaN"
| "fmul (Fin a) PInf = signed_inf a True"
| "fmul (Fin a) NInf = signed_inf a False"
| "fmul PInf (Fin b) = signed_inf b True"
| "fmul NInf (Fin b) = signed_inf b False"
| "fmul PInf PInf = PInf"
| "fmul NInf NInf = PInf"
| "fmul PInf NInf = NInf"
| "fmul NInf PInf = NInf"

text \<open>\<^verbatim>\<open>partial(torch.pow, exponent=2.0)\<close>, the \<^verbatim>\<open>sq_func\<close> of the metrics.\<close>

fun sq_func :: "fval \<Rightarrow> fval" where
  "sq_func (Fin a) = Fin (a ^ 2)"
| "sq_func PInf = PInf"
| "sq_func NInf = PInf"
| "sq_func NaN = NaN"

text \<open>\<^verbatim>\<open>torch.abs\<close>, the \<^verbatim>\<open>abs_func\<close> of the MAE metric.\<close>

fun abs_func :: "fval \<Rightarrow> fval" where
  "abs_func (Fin a) = Fin \<bar>a\<bar>"
| "abs_func PInf = PInf"
| "abs_func NInf = PInf"
| "abs_func NaN = NaN"

text \<open>\<^verbatim>\<open>torch.sqrt\<close> on one element: NaN below zero.\<close>

fun fsqrt :: "fval \<Rightarrow> fval" where
  "fsqrt (Fin a) = (if a < 0 then NaN else Fin (sqrt a))"
| "fsqrt PInf = PInf"
| "fsqrt NInf = NaN"
| "fsqrt NaN = NaN"

text \<open>\<^verbatim>\<open>torch.log10\<close> on one element: minus infinity at zero, NaN below zero.\<close>

fun flog10 :: "fval \<Rightarrow> fval" where
  "flog10 (Fin a) = (if a < 0 then NaN else if a = 0 then NInf else Fin (log 10 a))"
| "flog10 PInf = PInf"
| "flog10 NInf = NaN"
| "flog10 NaN = NaN"

text \<open>
  Division of a sum by an element count, as \<^verbatim>\<open>torch.mean\<close> does it: the count is a
  natural number, and a zero count gives NaN for a zero sum (the mean of no elements).
\<close>

fun fdiv_count :: "fval \<Rightarrow> nat \<Rightarrow> fval" where
  "fdiv_count (Fin a) n =
     (if n = 0 then (if a = 0 then NaN else if 0 < a then PInf else NInf)
      else Fin (a / real n))"
| "fdiv_count PInf n = PInf"
| "fdiv_count NInf n = NInf"
| "fdiv_count NaN n = NaN"

definition fsum :: "fval list \<Rightarrow> fval" where
  "fsum xs = foldr fadd xs (Fin 0)"

definition fmean :: "fval list \<Rightarrow> fval" where
  "fmean xs = fdiv_count (fsum xs) (length xs)"

subsection \<open>The cast to 32-bit floats\<close>

text \<open>
  Rounding a real number to the nearest binary32 number, ties to the even significand:
  24 bits of precision, the exponent not below -126 (so the subnormal numbers are
  multiples of 2 to the -149), no bound above. \<open>to_float32\<close> is the cast of one
  element: a number whose rounding reaches 2 to the 128 overflows to the infinity of
  its sign.
\<close>

definition round_half_even :: "real \<Rightarrow> int" where
  "round_half_even x =
     (let f = \<lfloor>x\<rfloor>; d = x - of_int f in
      if d < 1 / 2 then f else if 1 / 2 < d then f + 1 else if even f then f else f + 1)"

definition float32_exponent :: "real \<Rightarrow> int" where
  "float32_exponent a = max \<lfloor>log 2 \<bar>a\<bar>\<rfloor> (- 126)"

definition round_float32 :: "real \<Rightarrow> real" where
  "round_float32 a =
     (if a = 0 then 0
      else of_int (round_half_even (a / 2 powi (float32_exponent a - 23))) *
           2 powi (float32_exponent a - 23))"

fun to_float32 :: "fval \<Rightarrow> fval" where
  "to_float32 (Fin a) =
     (if 2 ^ 128 \<le> \<bar>round_float32 a\<bar> then (if 0 < a then PInf else NInf)
      else Fin (round_float32 a))"
| "to_float32 PInf = PInf"
| "to_float32 NInf = NInf"
| "to_float32 NaN = NaN"

section \<open>Errors\<close>

text \<open>
  The exceptions of the metric code. \<^verbatim>\<open>_check_shape\<close> raises \<^verbatim>\<open>ValueError\<close> twice,
  with two messages: \<open>ShapeMismatch\<close> is the one that prints the two shapes,
  \<open>InsufficientDimensions\<close> the one that asks for a channel or spatial dimension.
  \<open>MathDomainError\<close> is the \<^verbatim>\<open>ValueError\<close> of \<^verbatim>\<open>math.log10\<close>,
  \<open>BroadcastError\<close> the \<^verbatim>\<open>RuntimeError\<close> of an elementwise operation on shapes that
  do not broadcast, \<open>DimOutOfRange\<close> the \<^verbatim>\<open>IndexError\<close> of \<^verbatim>\<open>torch.flatten\<close>,
  \<open>InvalidConfiguration\<close> the failure of the batch reduction on an unknown mode, and
  \<open>ImportError\<close> carries the name a \<^verbatim>\<open>from ... import\<close> statement did not find,
  \<open>NameError\<close> the name a class or function definition used unbound.
\<close>

datatype error =
    ShapeMismatch "nat list" "nat list"
  | InsufficientDimensions
  | MathDomainError
  | BroadcastError
  | DimOutOfRange
  | InvalidConfiguration
  | ImportError string
  | NameError string

section \<open>Tensors\<close>

text \<open>
  A tensor is its shape and its elements in row-major order. A well-formed tensor has
  as many elements as its shape says.
\<close>

record tensor =
  shape :: "nat list"
  data :: "fval list"

definition wf_tensor :: "tensor \<Rightarrow> bool" where
  "wf_tensor t = (length (data t) = prod_list (shape t))"

definition full :: "nat list \<Rightarrow> fval \<Rightarrow> tensor" where
  "full s v = \<lparr>shape = s, data = replicate (prod_list s) v\<rparr>"

definition tmap :: "(fval \<Rightarrow> fval) \<Rightarrow> tensor \<Rightarrow> tensor" where
  "tmap f t = \<lparr>shape = shape t, data = map f (data t)\<rparr>"

text \<open>The \<open>m\<close> consecutive rows of length \<open>n\<close> of a row-major element list.\<close>

definition rows :: "nat \<Rightarrow> nat \<Rightarrow> 'a list \<Rightarrow> 'a list list" where
  "rows m n xs = map (\<lambda>i. take n (drop (i * n) xs)) [0..<m]"

subsection \<open>Broadcasting\<close>

text \<open>
  Shapes are aligned at their last dimension; two sizes agree when they are equal or
  one of them is 1. \<open>broadcast_rev\<close> works on the reversed shapes.
\<close>

fun broadcast_rev :: "nat list \<Rightarrow> nat list \<Rightarrow> nat list option" where
  "broadcast_rev [] bs = Some bs"
| "broadcast_rev (a # as) [] = Some (a # as)"
| "broadcast_rev (a # as) (b # bs) =
     (if a = b \<or> b = 1 then map_option ((#) a) (broadcast_rev as bs)
      else if a = 1 then map_option ((#) b) (broadcast_rev as bs)
      else None)"

definition broadcast_shapes :: "nat list \<Rightarrow> nat list \<Rightarrow> nat list option" where
  "broadcast_shapes s1 s2 = map_option rev (broadcast_rev (rev s1) (rev s2))"

definition pad_shape :: "nat \<Rightarrow> nat list \<Rightarrow> nat list" where
  "pad_shape k s = replicate (k - length s) 1 @ s"

text \<open>
  The elements of a tensor of shape \<open>ds\<close> expanded to shape \<open>es\<close> of the same rank: a
  dimension of equal size is kept, a dimension of size 1 is repeated.
\<close>

fun expand :: "nat list \<Rightarrow> nat list \<Rightarrow> 'a list \<Rightarrow> 'a list" where
  "expand (d # ds) (e # es) xs =
     (let n = prod_list ds in
      if d = e then concat (map (expand ds es) (rows d n xs))
      else concat (replicate e (expand ds es (take n xs))))"
| "expand _ _ xs = xs"

definition tensor_binop :: "(fval \<Rightarrow> fval \<Rightarrow> fval) \<Rightarrow> tensor \<Rightarrow> tensor \<Rightarrow> error + tensor" where
  "tensor_binop f a b =
     (case broadcast_shapes (shape a) (shape b) of
        None \<Rightarrow> Inl BroadcastError
      | Some s \<Rightarrow>
          Inr \<lparr>shape = s,
               data = map2 f (expand (pad_shape (length s) (shape a)) s (data a))
                             (expand (pad_shape (length s) (shape b)) s (data b))\<rparr>)"

text \<open>\<^verbatim>\<open>partial(torch.flatten, start_dim=1)\<close>: a tensor with no second dimension is refused.\<close>

definition flt :: "tensor \<Rightarrow> error + tensor" where
  "flt t =
     (case shape t of
        b # c # rest \<Rightarrow> Inr \<lparr>shape = [b, prod_list (c # rest)], data = data t\<rparr>
      | _ \<Rightarrow> Inl DimOutOfRange)"

text \<open>
  \<^verbatim>\<open>torch.mean(t, dim=-1, keepdim=True)\<close>: every row along the last dimension becomes
  its mean, and the last dimension has size 1 afterwards. A tensor with no dimension
  is its own mean.
\<close>

definition mean_last_keepdim :: "tensor \<Rightarrow> tensor" where
  "mean_last_keepdim t =
     (if shape t = [] then t
      else \<lparr>shape = butlast (shape t) @ [1],
            data = map fmean (rows (prod_list (butlast (shape t))) (last (shape t)) (data t))\<rparr>)"

section \<open>The metric core\<close>

text \<open>\<^verbatim>\<open>compute_mean_error_metrics(y_pred, y, func)\<close>.\<close>

definition compute_mean_error_metrics ::
  "tensor \<Rightarrow> tensor \<Rightarrow> (fval \<Rightarrow> fval) \<Rightarrow> error + tensor" where
  "compute_mean_error_metrics y_pred y func =
     (case tensor_binop fsub y y_pred of
        Inl e \<Rightarrow> Inl e
      | Inr d \<Rightarrow>
          (case flt (tmap func d) of
             Inl e \<Rightarrow> Inl e
           | Inr fl \<Rightarrow> Inr (mean_last_keepdim fl)))"

text \<open>\<^verbatim>\<open>RegressionMetric._check_shape\<close>: the shapes first, the number of dimensions second.\<close>

definition check_shape :: "tensor \<Rightarrow> tensor \<Rightarrow> error + unit" where
  "check_shape y_pred y =
     (if shape y_pred \<noteq> shape y then Inl (ShapeMismatch (shape y_pred) (shape y))
      else if length (shape y_pred) < 2 then Inl InsufficientDimensions
      else Inr ())"

text \<open>
  \<^verbatim>\<open>Tensor.float()\<close>: every element is cast to a 32-bit float, whatever the element type
  of the tensor was. An element too large for 32 bits becomes infinite, a finer one is
  rounded, a 32-bit one stays.
\<close>

definition float :: "tensor \<Rightarrow> tensor" where
  "float t = tmap to_float32 t"

text \<open>
  \<^verbatim>\<open>math.log10\<close> on a Python number: a \<^verbatim>\<open>ValueError\<close> (math domain error) at zero,
  below zero and at minus infinity.
\<close>

fun math_log10 :: "fval \<Rightarrow> error + fval" where
  "math_log10 (Fin a) = (if a \<le> 0 then Inl MathDomainError else Inr (Fin (log 10 a)))"
| "math_log10 PInf = Inr PInf"
| "math_log10 NInf = Inl MathDomainError"
| "math_log10 NaN = Inr NaN"

subsection \<open>Reduction modes\<close>

text \<open>
  \<^verbatim>\<open>monai.utils.MetricReduction\<close> is imported, not defined, by the metric module; its
  seven members and their string values are the ones every metric's docstring lists.
  The \<^verbatim>\<open>reduction\<close> argument of a metric is \<^verbatim>\<open>Union[MetricReduction, str]\<close>.
\<close>

datatype MetricReduction =
  MR_NONE | MR_MEAN | MR_SUM | MR_MEAN_BATCH | MR_SUM_BATCH | MR_MEAN_CHANNEL | MR_SUM_CHANNEL

datatype reduction_arg = Mode MetricReduction | Name string

definition look_up_reduction :: "reduction_arg \<Rightarrow> error + MetricReduction" where
  "look_up_reduction r =
     (case r of
        Mode m \<Rightarrow> Inr m
      | Name s \<Rightarrow>
          (if s = ''none'' then Inr MR_NONE
           else if s = ''mean'' then Inr MR_MEAN
           else if s = ''sum'' then Inr MR_SUM
           else if s = ''mean_batch'' then Inr MR_MEAN_BATCH
           else if s = ''sum_batch'' then Inr MR_SUM_BATCH
           else if s = ''mean_channel'' then Inr MR_MEAN_CHANNEL
           else if s = ''sum_channel'' then Inr MR_SUM_CHANNEL
           else Inl InvalidConfiguration))"

subsection \<open>The four metrics\<close>

text \<open>
  The concrete subclasses of \<^verbatim>\<open>RegressionMetric\<close> with the fields their constructors
  store: the reduction, and \<^verbatim>\<open>max_val\<close> first for PSNR. The error functions
  \<^verbatim>\<open>sq_func\<close> and \<^verbatim>\<open>abs_func\<close> are the same in every instance.
\<close>

datatype metric =
    MSEMetric reduction_arg
  | MAEMetric reduction_arg
  | RMSEMetric reduction_arg
  | PSNRMetric fval reduction_arg

fun reduction :: "metric \<Rightarrow> reduction_arg" where
  "reduction (MSEMetric r) = r"
| "reduction (MAEMetric r) = r"
| "reduction (RMSEMetric r) = r"
| "reduction (PSNRMetric max_val r) = r"

text \<open>
  \<^verbatim>\<open>_compute_metric\<close> of each subclass. In PSNR the mean squared error is computed
  first and \<^verbatim>\<open>math.log10(self.max_val)\<close> second, so an error of the former wins.
\<close>

fun compute_metric :: "metric \<Rightarrow> tensor \<Rightarrow> tensor \<Rightarrow> error + tensor" where
  "compute_metric (MSEMetric r) y_pred y =
     compute_mean_error_metrics (float y_pred) (float y) sq_func"
| "compute_metric (MAEMetric r) y_pred y =
     compute_mean_error_metrics (float y_pred) (float y) abs_func"
| "compute_metric (RMSEMetric r) y_pred y =
     (case compute_mean_error_metrics (float y_pred) (float y) sq_func of
        Inl e \<Rightarrow> Inl e
      | Inr mse_out \<Rightarrow> Inr (tmap fsqrt mse_out))"
| "compute_metric (PSNRMetric max_val r) y_pred y =
     (case compute_mean_error_metrics (float y_pred) (float y) sq_func of
        Inl e \<Rightarrow> Inl e
      | Inr mse_out \<Rightarrow>
          (case math_log10 max_val of
             Inl e \<Rightarrow> Inl e
           | Inr l \<Rightarrow>
               Inr (tmap (\<lambda>x. fsub (fmul (Fin 20) l) (fmul (Fin 10) (flog10 x))) mse_out)))"

subsection \<open>The call of a metric\<close>

text \<open>
  \<^verbatim>\<open>RegressionMetric.__call__\<close>, for any implementation \<open>cm\<close> of the abstract
  \<^verbatim>\<open>_compute_metric\<close> and any \<open>rd\<close> for \<^verbatim>\<open>_reduce\<close>: the shape check, the
  per-sample computation, the batch reduction, each step only if the one before it
  did not raise.
\<close>

definition RegressionMetric_call ::
  "(tensor \<Rightarrow> tensor \<Rightarrow> error + tensor) \<Rightarrow> (tensor \<Rightarrow> error + tensor \<times> tensor) \<Rightarrow>
   tensor \<Rightarrow> tensor \<Rightarrow> error + tensor \<times> tensor" where
  "RegressionMetric_call cm rd y_pred y =
     (case check_shape y_pred y of
        Inl e \<Rightarrow> Inl e
      | Inr _ \<Rightarrow>
          (case cm y_pred y of
             Inl e \<Rightarrow> Inl e
           | Inr out \<Rightarrow> rd out))"

text \<open>
  The call of one of the four metrics. \<^verbatim>\<open>_reduce\<close> hands the per-sample tensor and the
  stored reduction to \<^verbatim>\<open>do_metric_reduction\<close>, which \<^verbatim>\<open>monai.metrics.utils\<close> defines:
  it is the parameter \<open>dmr\<close>.
\<close>

definition metric_call ::
  "(tensor \<Rightarrow> reduction_arg \<Rightarrow> error + tensor \<times> tensor) \<Rightarrow> metric \<Rightarrow>
   tensor \<Rightarrow> tensor \<Rightarrow> error + tensor \<times> tensor" where
  "metric_call dmr m y_pred y =
     RegressionMetric_call (compute_metric m) (\<lambda>f. dmr f (reduction m)) y_pred y"

subsection \<open>The per-sample mean as the specification words it\<close>

text \<open>
  The elements of sample \<open>b\<close> of a tensor: those whose first index is \<open>b\<close>, the other
  indices running over all channel and spatial positions.
\<close>

definition sample_elems :: "tensor \<Rightarrow> nat \<Rightarrow> fval list" where
  "sample_elems t b =
     map (\<lambda>j. data t ! (b * prod_list (tl (shape t)) + j)) [0..<prod_list (tl (shape t))]"

text \<open>
  The specification's contract of the shared computation: one value per batch element,
  the mean of \<open>f (Y - P)\<close> over the elements of that sample, in a tensor of shape batch
  size by 1.
\<close>

definition per_sample_mean_spec :: "tensor \<Rightarrow> tensor \<Rightarrow> (fval \<Rightarrow> fval) \<Rightarrow> tensor" where
  "per_sample_mean_spec P Y f =
     \<lparr>shape = [hd (shape P), 1],
      data = map (\<lambda>b. fmean (map2 (\<lambda>y p. f (fsub y p)) (sample_elems Y b) (sample_elems P b)))
               [0..<hd (shape P)]\<rparr>"

section \<open>Batch reduction\<close>

definition columns :: "nat \<Rightarrow> nat \<Rightarrow> 'a list \<Rightarrow> 'a list list" where
  "columns m n xs = map (\<lambda>c. map (\<lambda>b. xs ! (b * n + c)) [0..<m]) [0..<n]"

definition not_nans_count :: "fval list \<Rightarrow> fval" where
  "not_nans_count xs = Fin (real (length (filter (\<lambda>x. \<not> isnan x) xs)))"

definition nanmean :: "fval list \<Rightarrow> fval" where
  "nanmean xs = fmean (filter (\<lambda>x. \<not> isnan x) xs)"

definition scalar :: "fval \<Rightarrow> tensor" where
  "scalar v = \<lparr>shape = [], data = [v]\<rparr>"

definition vector :: "fval list \<Rightarrow> tensor" where
  "vector vs = \<lparr>shape = [length vs], data = vs\<rparr>"

definition batch_size :: "tensor \<Rightarrow> nat" where
  "batch_size f = (case shape f of [] \<Rightarrow> 1 | b # _ \<Rightarrow> b)"

definition channel_size :: "tensor \<Rightarrow> nat" where
  "channel_size f = prod_list (tl (shape f))"

text \<open>
  Modelled from the spec: \<^verbatim>\<open>do_metric_reduction\<close> of \<^verbatim>\<open>monai.metrics.utils\<close>, which the
  metric module imports, is not among the source files. Section 4.7 of the specification
  gives it: on the per-sample tensor (batch by 1, or batch by channel) mode none returns
  the tensor as it is, with 1 for every element that is not NaN; mean and sum reduce over
  all elements, the mean ignoring NaN elements; the batch modes reduce over the batch
  dimension and keep the channels; the channel modes reduce over the channel dimension
  and keep the batch; the count of non-NaN elements comes with every result; an unknown
  mode fails with InvalidConfiguration. The specification says that the mean ignores NaN
  and says nothing of the kind for the sum, which is the plain sum here.
\<close>

fun reduce_mode :: "MetricReduction \<Rightarrow> tensor \<Rightarrow> tensor \<times> tensor" where
  "reduce_mode MR_NONE f = (f, tmap (\<lambda>x. if isnan x then Fin 0 else Fin 1) f)"
| "reduce_mode MR_MEAN f = (scalar (nanmean (data f)), scalar (not_nans_count (data f)))"
| "reduce_mode MR_SUM f = (scalar (fsum (data f)), scalar (not_nans_count (data f)))"
| "reduce_mode MR_MEAN_BATCH f =
     (vector (map nanmean (columns (batch_size f) (channel_size f) (data f))),
      vector (map not_nans_count (columns (batch_size f) (channel_size f) (data f))))"
| "reduce_mode MR_SUM_BATCH f =
     (vector (map fsum (columns (batch_size f) (channel_size f) (data f))),
      vector (map not_nans_count (columns (batch_size f) (channel_size f) (data f))))"
| "reduce_mode MR_MEAN_CHANNEL f =
     (vector (map nanmean (rows (batch_size f) (channel_size f) (data f))),
      vector (map not_nans_count (rows (batch_size f) (channel_size f) (data f))))"
| "reduce_mode MR_SUM_CHANNEL f =
     (vector (map fsum (rows (batch_size f) (channel_size f) (data f))),
      vector (map not_nans_count (rows (batch_size f) (channel_size f) (data f))))"

definition do_metric_reduction :: "tensor \<Rightarrow> reduction_arg \<Rightarrow> error + tensor \<times> tensor" where
  "do_metric_reduction f r =
     (case look_up_reduction r of
        Inl e \<Rightarrow> Inl e
      | Inr m \<Rightarrow> Inr (reduce_mode m f))"

section \<open>Loading the two modules\<close>

text \<open>
  A module body is a list of top-level statements, run in order against the names bound
  so far. An import binds names, a class or function definition binds its own name
  after looking up the names it uses when it is defined (base classes, decorators,
  annotations, default values). The first failing statement ends the run with its error
  and the names bound until then.
\<close>

datatype stmt =
    Import string
  | ImportFrom string "string list"
  | ClassDef string "string list"
  | FunctionDef string "string list"

text \<open>
  What an import finds: a module outside the two source files (\<open>External\<close>, taken to
  load and to provide every name asked of it), a module that loaded with the given
  top-level names, or one whose own body failed.
\<close>

datatype module = External | Loaded "string list" | Broken error

fun provides :: "module \<Rightarrow> string \<Rightarrow> bool" where
  "provides External n = True"
| "provides (Loaded attrs) n = (n \<in> set attrs)"
| "provides (Broken e) n = False"

text \<open>\<^verbatim>\<open>from m import a, b, ...\<close> binds one name after the other and stops at the first one missing.\<close>

fun import_names :: "module \<Rightarrow> string list \<Rightarrow> string list \<Rightarrow> error \<times> string list + string list" where
  "import_names md ns [] = Inr ns"
| "import_names md ns (n # rest) =
     (if provides md n then import_names md (ns @ [n]) rest else Inl (ImportError n, ns))"

fun exec_stmt :: "(string \<Rightarrow> module) \<Rightarrow> string list \<Rightarrow> stmt \<Rightarrow> error \<times> string list + string list" where
  "exec_stmt env ns (Import m) =
     (case env m of Broken e \<Rightarrow> Inl (e, ns) | _ \<Rightarrow> Inr (ns @ [m]))"
| "exec_stmt env ns (ImportFrom m names) =
     (case env m of Broken e \<Rightarrow> Inl (e, ns) | md \<Rightarrow> import_names md ns names)"
| "exec_stmt env ns (ClassDef c uses) =
     (case find (\<lambda>u. u \<notin> set ns) uses of
        Some u \<Rightarrow> Inl (NameError u, ns)
      | None \<Rightarrow> Inr (ns @ [c]))"
| "exec_stmt env ns (FunctionDef f uses) =
     (case find (\<lambda>u. u \<notin> set ns) uses of
        Some u \<Rightarrow> Inl (NameError u, ns)
      | None \<Rightarrow> Inr (ns @ [f]))"

fun exec_module :: "(string \<Rightarrow> module) \<Rightarrow> string list \<Rightarrow> stmt list \<Rightarrow> error \<times> string list + string list" where
  "exec_module env ns [] = Inr ns"
| "exec_module env ns (s # ss) =
     (case exec_stmt env ns s of
        Inl e \<Rightarrow> Inl e
      | Inr ns' \<Rightarrow> exec_module env ns' ss)"

text \<open>The top-level statements of \<^verbatim>\<open>monai/metrics/regression.py\<close>.\<close>

definition regression_module :: "stmt list" where
  "regression_module =
     [Import ''math'',
      ImportFrom ''abc'' [''ABC'', ''abstractmethod''],
      ImportFrom ''functools'' [''partial''],
      ImportFrom ''typing'' [''Any'', ''Union''],
      Import ''torch'',
      ImportFrom ''monai.metrics.utils'' [''do_metric_reduction''],
      ImportFrom ''monai.utils'' [''MetricReduction''],
      ClassDef ''RegressionMetric'' [''ABC'', ''Union'', ''MetricReduction'', ''torch'', ''abstractmethod''],
      ClassDef ''MSEMetric'' [''RegressionMetric'', ''Union'', ''MetricReduction'', ''torch''],
      ClassDef ''MAEMetric'' [''RegressionMetric'', ''Union'', ''MetricReduction'', ''torch''],
      ClassDef ''RMSEMetric'' [''RegressionMetric'', ''Union'', ''MetricReduction'', ''torch''],
      ClassDef ''PSNRMetric'' [''RegressionMetric'', ''Union'', ''MetricReduction'', ''torch'', ''Any''],
      FunctionDef ''compute_mean_error_metrics'' [''torch'']]"

text \<open>The top-level statements of \<^verbatim>\<open>monai/handlers/regression_metrics.py\<close>.\<close>

definition regression_metrics_module :: "stmt list" where
  "regression_metrics_module =
     [ImportFrom ''typing'' [''Callable'', ''Union''],
      Import ''torch'',
      ImportFrom ''monai.handlers.iteration_metric'' [''IterationMetric''],
      ImportFrom ''monai.metrics.regression''
        [''MAEMetric'', ''MSEMetric'', ''PSNRMetric'', ''RMSEMetric'', ''MSEMetricTraining'',
         ''MAEMetricTraining''],
      ImportFrom ''monai.utils'' [''MetricReduction''],
      ClassDef ''MeanSquaredError'' [''IterationMetric'', ''Callable'', ''Union'', ''torch''],
      ClassDef ''MeanSquaredErrorTraining'' [''IterationMetric'', ''Callable'', ''Union'', ''torch''],
      ClassDef ''MeanAbsoluteError'' [''IterationMetric'', ''Callable'', ''Union'', ''torch''],
      ClassDef ''MeanAbsoluteErrorTraining'' [''IterationMetric'', ''Callable'', ''Union'', ''torch''],
      ClassDef ''RootMeanSquaredError'' [''IterationMetric'', ''Callable'', ''Union'', ''torch''],
      ClassDef ''PeakSignalToNoiseRatio'' [''IterationMetric'', ''Callable'', ''Union'', ''torch'']]"

definition handler_classes :: "string list" where
  "handler_classes =
     [''MeanSquaredError'', ''MeanSquaredErrorTraining'', ''MeanAbsoluteError'',
      ''MeanAbsoluteErrorTraining'', ''RootMeanSquaredError'', ''PeakSignalToNoiseRatio'']"

text \<open>
  Importing the metric module runs its body with every module it imports external;
  importing the adapter module runs its body with the metric module as that run left it.
\<close>

definition load_regression :: module where
  "load_regression =
     (case exec_module (\<lambda>m. External) [] regression_module of
        Inl (e, ns) \<Rightarrow> Broken e
      | Inr ns \<Rightarrow> Loaded ns)"

definition adapter_env :: "string \<Rightarrow> module" where
  "adapter_env m = (if m = ''monai.metrics.regression'' then load_regression else External)"

definition load_regression_metrics :: "error \<times> string list + string list" where
  "load_regression_metrics = exec_module adapter_env [] regression_metrics_module"

section \<open>The iteration adapter\<close>

text \<open>
  Modelled from the spec: \<^verbatim>\<open>IterationMetric\<close> of \<^verbatim>\<open>monai.handlers.iteration_metric\<close>,
  the base class of every handler, is not among the source files. A handler keeps what
  its constructor hands to \<^verbatim>\<open>super().__init__\<close>: the metric, the output transform, the
  device and the detail flag (section 4.8).
\<close>

record 'o IterationMetric =
  metric_fn :: metric
  output_transform :: "'o \<Rightarrow> tensor \<times> tensor"
  device :: string
  save_details :: bool

text \<open>
  The bodies of the four documented \<^verbatim>\<open>__init__\<close> methods of
  \<^verbatim>\<open>monai/handlers/regression_metrics.py\<close>: each builds its metric with
  \<^verbatim>\<open>reduction=MetricReduction.NONE\<close> and passes it on with its other arguments. A default
  of the source (the identity transform, \<^verbatim>\<open>"cpu"\<close>, \<^verbatim>\<open>True\<close>) is an argument the caller
  writes out.
\<close>

definition MeanSquaredError_init ::
  "('o \<Rightarrow> tensor \<times> tensor) \<Rightarrow> string \<Rightarrow> bool \<Rightarrow> 'o IterationMetric" where
  "MeanSquaredError_init ot dev sd =
     \<lparr>metric_fn = MSEMetric (Mode MR_NONE), output_transform = ot, device = dev,
      save_details = sd\<rparr>"

definition MeanAbsoluteError_init ::
  "('o \<Rightarrow> tensor \<times> tensor) \<Rightarrow> string \<Rightarrow> bool \<Rightarrow> 'o IterationMetric" where
  "MeanAbsoluteError_init ot dev sd =
     \<lparr>metric_fn = MAEMetric (Mode MR_NONE), output_transform = ot, device = dev,
      save_details = sd\<rparr>"

definition RootMeanSquaredError_init ::
  "('o \<Rightarrow> tensor \<times> tensor) \<Rightarrow> string \<Rightarrow> bool \<Rightarrow> 'o IterationMetric" where
  "RootMeanSquaredError_init ot dev sd =
     \<lparr>metric_fn = RMSEMetric (Mode MR_NONE), output_transform = ot, device = dev,
      save_details = sd\<rparr>"

definition PeakSignalToNoiseRatio_init ::
  "fval \<Rightarrow> ('o \<Rightarrow> tensor \<times> tensor) \<Rightarrow> string \<Rightarrow> bool \<Rightarrow> 'o IterationMetric" where
  "PeakSignalToNoiseRatio_init max_val ot dev sd =
     \<lparr>metric_fn = PSNRMetric max_val (Mode MR_NONE), output_transform = ot, device = dev,
      save_details = sd\<rparr>"

text \<open>
  A program reaches a handler class through an import of the adapter module, which runs
  the module's body: the adapter module as an import finds it, and the environment of
  a program that imports it.
\<close>

definition regression_metrics :: module where
  "regression_metrics =
     (case load_regression_metrics of
        Inl (e, ns) \<Rightarrow> Broken e
      | Inr ns \<Rightarrow> Loaded ns)"

definition client_env :: "string \<Rightarrow> module" where
  "client_env m =
     (if m = ''monai.handlers.regression_metrics'' then regression_metrics else adapter_env m)"

text \<open>
  Constructing a handler of class \<open>c\<close>:
  \<^verbatim>\<open>from monai.handlers.regression_metrics import c\<close>, then the call of the class,
  which runs its \<^verbatim>\<open>__init__\<close> and gives the handler \<open>h\<close>.
\<close>

definition new_handler :: "string \<Rightarrow> 'h \<Rightarrow> error + 'h" where
  "new_handler c h =
     (case exec_stmt client_env [] (ImportFrom ''monai.handlers.regression_metrics'' [c]) of
        Inl (e, ns) \<Rightarrow> Inl e
      | Inr ns \<Rightarrow> Inr h)"

definition MeanSquaredError ::
  "('o \<Rightarrow> tensor \<times> tensor) \<Rightarrow> string \<Rightarrow> bool \<Rightarrow> error + 'o IterationMetric" where
  "MeanSquaredError ot dev sd = new_handler ''MeanSquaredError'' (MeanSquaredError_init ot dev sd)"

definition MeanAbsoluteError ::
  "('o \<Rightarrow> tensor \<times> tensor) \<Rightarrow> string \<Rightarrow> bool \<Rightarrow> error + 'o IterationMetric" where
  "MeanAbsoluteError ot dev sd = new_handler ''MeanAbsoluteError'' (MeanAbsoluteError_init ot dev sd)"

definition RootMeanSquaredError ::
  "('o \<Rightarrow> tensor \<times> tensor) \<Rightarrow> string \<Rightarrow> bool \<Rightarrow> error + 'o IterationMetric" where
  "RootMeanSquaredError ot dev sd =
     new_handler ''RootMeanSquaredError'' (RootMeanSquaredError_init ot dev sd)"

definition PeakSignalToNoiseRatio ::
  "fval \<Rightarrow> ('o \<Rightarrow> tensor \<times> tensor) \<Rightarrow> string \<Rightarrow> bool \<Rightarrow> error + 'o IterationMetric" where
  "PeakSignalToNoiseRatio max_val ot dev sd =
     new_handler ''PeakSignalToNoiseRatio'' (PeakSignalToNoiseRatio_init max_val ot dev sd)"

section \<open>Auxiliary notions of the statements\<close>

text \<open>A value that is not below zero: a finite number from zero up, plus infinity, or NaN.\<close>

fun not_negative :: "fval \<Rightarrow> bool" where
  "not_negative (Fin a) = (0 \<le> a)"
| "not_negative PInf = True"
| "not_negative NInf = False"
| "not_negative NaN = True"

text \<open>A positive value: a finite number above zero, or plus infinity.\<close>

fun positive :: "fval \<Rightarrow> bool" where
  "positive (Fin a) = (0 < a)"
| "positive PInf = True"
| "positive NInf = False"
| "positive NaN = False"

text \<open>
  The specification's PSNR formula on one per-sample mean squared error \<open>x\<close>: 20 times
  the decimal logarithm of \<open>max_val\<close>, minus 10 times the decimal logarithm of \<open>x\<close>, in
  the arithmetic of the special values.
\<close>

definition psnr_value :: "fval \<Rightarrow> fval \<Rightarrow> fval" where
  "psnr_value max_val x = fsub (fmul (Fin 20) (flog10 max_val)) (fmul (Fin 10) (flog10 x))"

section \<open>The cast to 32-bit floats\<close>

lemma round_half_even_int: "round_half_even (of_int m) = m"
  by (simp add: round_half_even_def)

lemma floor_log2:
  assumes "2 powi e \<le> x" "x < 2 powi (e + 1)"
  shows "\<lfloor>log 2 x\<rfloor> = e"
proof -
  have pos: "0 < x" using assms(1) by (smt (verit) zero_less_power_int)
  have "2 powr (of_int e) \<le> x" "x < 2 powr (of_int (e + 1))"
    using assms by (simp_all add: powr_real_of_int' del: of_int_add)
  then have "of_int e \<le> log 2 x" "log 2 x < of_int (e + 1)"
    using pos by (simp_all add: le_log_iff log_less_iff del: of_int_add)
  then show ?thesis by (simp add: floor_unique)
qed

text \<open>A number with a 24-bit significand and an exponent from -126 up is its own rounding.\<close>

lemma round_float32_normal:
  assumes "2 ^ 23 \<le> \<bar>m\<bar>" "\<bar>m\<bar> < 2 ^ 24" "- 126 \<le> e"
  shows "round_float32 (of_int m * 2 powi (e - 23)) = of_int m * 2 powi (e - 23)"
proof -
  let ?u = "(2::real) powi (e - 23)"
  let ?a = "of_int m * ?u"
  have u: "0 < ?u" by simp
  have m0: "m \<noteq> 0" using assms(1) by auto
  have abs: "\<bar>?a\<bar> = of_int \<bar>m\<bar> * ?u" by (simp add: abs_mult)
  have "(2::real) ^ 23 \<le> of_int \<bar>m\<bar>" "of_int \<bar>m\<bar> < (2::real) ^ 24"
    using assms(1,2)
    by (metis of_int_le_iff of_int_numeral of_int_power,
        metis of_int_less_iff of_int_numeral of_int_power)
  then have "2 ^ 23 * ?u \<le> \<bar>?a\<bar>" "\<bar>?a\<bar> < 2 ^ 24 * ?u"
    unfolding abs using u by simp_all
  moreover have "(2::real) ^ 23 * ?u = 2 powi e" "(2::real) ^ 24 * ?u = 2 powi (e + 1)"
    by (simp_all add: power_int_diff power_int_add)
  ultimately have "\<lfloor>log 2 \<bar>?a\<bar>\<rfloor> = e" by (intro floor_log2) simp_all
  then have e: "float32_exponent ?a = e" using assms(3) by (simp add: float32_exponent_def)
  have "?a / ?u = of_int m" by simp
  then show ?thesis
    using m0 by (simp add: round_float32_def e round_half_even_int del: of_int_mult)
qed

lemma round_float32_small:
  "round_float32 0 = 0" "round_float32 1 = 1" "round_float32 2 = 2" "round_float32 3 = 3"
  "round_float32 4 = 4" "round_float32 5 = 5"
  using round_float32_normal [of 8388608 0] round_float32_normal [of 8388608 1]
    round_float32_normal [of 12582912 1] round_float32_normal [of 8388608 2]
    round_float32_normal [of 10485760 2]
  by (simp_all add: power_int_minus round_float32_def)

lemma to_float32_small:
  "to_float32 (Fin 0) = Fin 0" "to_float32 (Fin 1) = Fin 1" "to_float32 (Fin 2) = Fin 2"
  "to_float32 (Fin 3) = Fin 3" "to_float32 (Fin 4) = Fin 4" "to_float32 (Fin 5) = Fin 5"
  by (simp_all add: round_float32_small)

text \<open>Two to the 130 is a finite 64-bit float and overflows in 32 bits.\<close>

lemma to_float32_overflow: "to_float32 (Fin (2 ^ 130)) = PInf"
proof -
  have "round_float32 (2 ^ 130) = 2 ^ 130"
    using round_float32_normal [of 8388608 130] by simp
  then show ?thesis by simp
qed

declare to_float32.simps(1) [simp del]

lemma shape_float: "shape (float t) = shape t"
  by (simp add: float_def tmap_def)

lemma data_float: "data (float t) = map to_float32 (data t)"
  by (simp add: float_def tmap_def)

lemma wf_tensor_float: "wf_tensor (float t) = wf_tensor t"
  by (simp add: wf_tensor_def shape_float data_float)

lemma float_exact: "(\<And>x. x \<in> set (data t) \<Longrightarrow> to_float32 x = x) \<Longrightarrow> float t = t"
  by (simp add: float_def tmap_def map_idI)

lemma float_full: "to_float32 v = v \<Longrightarrow> float (full s v) = full s v"
  by (simp add: float_def tmap_def full_def)

lemma float_overflow:
  "float \<lparr>shape = [1, 1], data = [Fin (2 ^ 130)]\<rparr> = \<lparr>shape = [1, 1], data = [PInf]\<rparr>"
  by (simp only: float_def tmap_def tensor.simps list.map to_float32_overflow)

section \<open>Rows of a row-major list\<close>

lemma take_rows: "m * n \<le> length xs \<Longrightarrow> concat (rows m n xs) = take (m * n) xs"
proof (induction m)
  case 0
  then show ?case by (simp add: rows_def)
next
  case (Suc m)
  then have "concat (rows m n xs) = take (m * n) xs" by simp
  moreover have "rows (Suc m) n xs = rows m n xs @ [take n (drop (m * n) xs)]"
    by (simp add: rows_def)
  moreover have "Suc m * n = m * n + n" by simp
  ultimately show ?case
    by (simp only: concat_append take_add concat.simps append_Nil2)
qed

lemma concat_rows: "length xs = m * n \<Longrightarrow> concat (rows m n xs) = xs"
  using take_rows [of m n xs] by simp

lemma row_bound: "i < m \<Longrightarrow> i * n + n \<le> m * (n::nat)"
proof -
  assume "i < m"
  then have "Suc i * n \<le> m * n" by (intro mult_le_mono1) simp
  then show ?thesis by (simp add: add.commute)
qed

lemma length_row: "i < m \<Longrightarrow> m * n \<le> length xs \<Longrightarrow> length (take n (drop (i * n) xs)) = n"
  using row_bound [of i m n] by simp

lemma map_rows:
  "(\<And>i. i < m \<Longrightarrow> g (take n (drop (i * n) xs)) = h i) \<Longrightarrow> map g (rows m n xs) = map h [0..<m]"
  by (simp add: rows_def)

lemma take_drop_nth: "k + n \<le> length xs \<Longrightarrow> take n (drop k xs) = map (\<lambda>j. xs ! (k + j)) [0..<n]"
  by (rule nth_equalityI) auto

lemma row_of_map2:
  assumes "i * n + n \<le> length ys" "i * n + n \<le> length ps"
  shows "take n (drop (i * n) (map f (map2 g ys ps))) =
           map2 (\<lambda>y p. f (g y p)) (map (\<lambda>j. ys ! (i * n + j)) [0..<n]) (map (\<lambda>j. ps ! (i * n + j)) [0..<n])"
proof -
  have "take n (drop (i * n) (map f (map2 g ys ps))) =
          map2 (\<lambda>y p. f (g y p)) (take n (drop (i * n) ys)) (take n (drop (i * n) ps))"
    by (simp add: take_map drop_map take_zip drop_zip split_def)
  with assms show ?thesis by (simp add: take_drop_nth)
qed

lemma row_of_replicate:
  assumes "i < m"
  shows "take n (drop (i * n) (replicate (m * n) v)) = replicate n v"
proof -
  have "i * n + n \<le> m * n" using assms by (rule row_bound)
  then have "min n (m * n - i * n) = n" by simp
  then show ?thesis by simp
qed

section \<open>Elementwise operations on equal shapes\<close>

lemma expand_same: "length xs = prod_list ds \<Longrightarrow> expand ds ds xs = xs"
proof (induction ds arbitrary: xs)
  case Nil
  then show ?case by simp
next
  case (Cons d ds)
  have "map (expand ds ds) (rows d (prod_list ds) xs) = rows d (prod_list ds) xs"
    unfolding rows_def using Cons.prems
    by (auto simp: map_idI intro!: Cons.IH length_row [of _ d])
  then show ?case using Cons.prems by (simp add: concat_rows)
qed

lemma broadcast_rev_same: "broadcast_rev s s = Some s"
  by (induction s) auto

lemma broadcast_shapes_same: "broadcast_shapes s s = Some s"
  by (simp add: broadcast_shapes_def broadcast_rev_same)

lemma shape_two: "2 \<le> length s \<Longrightarrow> \<exists>b c rest. s = b # c # rest"
  by (cases s; cases "tl s") auto

lemma tmap_full: "tmap f (full s v) = full s (f v)"
  by (simp add: tmap_def full_def)

lemma map2_swap:
  "(\<And>a b. f (g a b) = f (g b a)) \<Longrightarrow> map f (map2 g xs ys) = map f (map2 g ys xs)"
proof (induction xs arbitrary: ys)
  case Nil
  then show ?case by simp
next
  case (Cons x xs)
  then show ?case by (cases ys) simp_all
qed

section \<open>The shared per-sample computation\<close>

lemma compute_mean_error_metrics_eq:
  assumes "shape P = shape Y" "shape P = b # c # rest"
  shows "compute_mean_error_metrics P Y f =
           Inr \<lparr>shape = [b, 1],
                data = map fmean (rows b (prod_list (c # rest))
                         (map f (map2 fsub (expand (shape Y) (shape Y) (data Y))
                                           (expand (shape Y) (shape Y) (data P)))))\<rparr>"
proof -
  have sY: "shape Y = b # c # rest" using assms by simp
  show ?thesis
    unfolding compute_mean_error_metrics_def tensor_binop_def assms(2) sY
    by (simp add: broadcast_shapes_same pad_shape_def tmap_def flt_def mean_last_keepdim_def)
qed

lemma compute_mean_error_metrics_wf:
  assumes "shape P = shape Y" "shape P = b # c # rest" "wf_tensor P" "wf_tensor Y"
  shows "compute_mean_error_metrics P Y f =
           Inr \<lparr>shape = [b, 1],
                data = map fmean (rows b (prod_list (c # rest))
                         (map f (map2 fsub (data Y) (data P))))\<rparr>"
proof -
  have "length (data P) = prod_list (shape Y)" "length (data Y) = prod_list (shape Y)"
    using assms by (simp_all add: wf_tensor_def)
  then show ?thesis
    using compute_mean_error_metrics_eq [OF assms(1,2), of f] by (simp add: expand_same)
qed

lemma mse_defined:
  assumes "shape P = shape Y" "2 \<le> length (shape P)"
  shows "\<exists>mse. compute_metric (MSEMetric r) P Y = Inr mse"
proof -
  from shape_two [OF assms(2)] obtain b c rest where s: "shape P = b # c # rest" by blast
  have "shape (float P) = shape (float Y)" "shape (float P) = b # c # rest"
    using assms(1) s by (simp_all add: shape_float)
  then show ?thesis
    using compute_mean_error_metrics_eq [of "float P" "float Y" b c rest sq_func] by simp
qed

section \<open>Validation comes first\<close>

text \<open>
  C1: calling a regression metric (MSE, MAE, RMSE or PSNR) raises ShapeMismatch when the
  shapes of \<open>y_pred\<close> and \<open>y\<close> differ, and InsufficientDimensions when the equal shapes
  have fewer than two dimensions. The error is raised before any metric value is
  computed: it is the result for every implementation \<open>cm\<close> of the per-sample
  computation and every reduction \<open>rd\<close>, \<open>dmr\<close>, also for those that would raise
  themselves.
\<close>

theorem validation_errors:
  "(shape y_pred \<noteq> shape y \<longrightarrow>
      RegressionMetric_call cm rd y_pred y = Inl (ShapeMismatch (shape y_pred) (shape y)) \<and>
      metric_call dmr m y_pred y = Inl (ShapeMismatch (shape y_pred) (shape y))) \<and>
   (shape y_pred = shape y \<and> length (shape y_pred) < 2 \<longrightarrow>
      RegressionMetric_call cm rd y_pred y = Inl InsufficientDimensions \<and>
      metric_call dmr m y_pred y = Inl InsufficientDimensions)"
  by (auto simp: RegressionMetric_call_def metric_call_def check_shape_def)

text \<open>
  The two scenarios of the specification: shapes (2,3,4) against (2,3,5), here with a PSNR
  metric whose \<open>max_val\<close> and reduction would both be refused later, and shape (4,).
\<close>

theorem validation_errors_witness:
  "shape (full [2, 3, 4] (Fin 0)) \<noteq> shape (full [2, 3, 5] (Fin 0)) \<and>
   metric_call do_metric_reduction (PSNRMetric (Fin 0) (Name ''bogus''))
     (full [2, 3, 4] (Fin 0)) (full [2, 3, 5] (Fin 0)) = Inl (ShapeMismatch [2, 3, 4] [2, 3, 5]) \<and>
   shape (full [4] (Fin 1)) = shape (full [4] (Fin 2)) \<and> length (shape (full [4] (Fin 1))) < 2 \<and>
   metric_call do_metric_reduction (MSEMetric (Mode MR_MEAN))
     (full [4] (Fin 1)) (full [4] (Fin 2)) = Inl InsufficientDimensions"
  using validation_errors [of "full [2, 3, 4] (Fin 0)" "full [2, 3, 5] (Fin 0)"
      "compute_metric (PSNRMetric (Fin 0) (Name ''bogus''))"
      "\<lambda>f. do_metric_reduction f (Name ''bogus'')"
      do_metric_reduction "PSNRMetric (Fin 0) (Name ''bogus'')"]
    validation_errors [of "full [4] (Fin 1)" "full [4] (Fin 2)"
      "compute_metric (MSEMetric (Mode MR_MEAN))"
      "\<lambda>f. do_metric_reduction f (Mode MR_MEAN)"
      do_metric_reduction "MSEMetric (Mode MR_MEAN)"]
  by (simp add: full_def)

text \<open>
  C10: when the shapes differ and there are fewer than two dimensions as well, the error
  is ShapeMismatch, not InsufficientDimensions: the shapes are compared first.
\<close>

theorem shape_mismatch_reported_first:
  assumes "shape y_pred \<noteq> shape y"
    and "length (shape y_pred) < 2 \<or> length (shape y) < 2"
  shows "check_shape y_pred y = Inl (ShapeMismatch (shape y_pred) (shape y)) \<and>
         metric_call dmr m y_pred y = Inl (ShapeMismatch (shape y_pred) (shape y)) \<and>
         metric_call dmr m y_pred y \<noteq> Inl InsufficientDimensions"
  using assms by (simp add: RegressionMetric_call_def metric_call_def check_shape_def)

theorem shape_mismatch_reported_first_witness:
  "shape (full [4] (Fin 1)) \<noteq> shape (full [5] (Fin 1)) \<and>
   (length (shape (full [4] (Fin 1))) < 2 \<or> length (shape (full [5] (Fin 1))) < 2) \<and>
   metric_call do_metric_reduction (MAEMetric (Mode MR_MEAN)) (full [4] (Fin 1)) (full [5] (Fin 1))
     = Inl (ShapeMismatch [4] [5])"
  using shape_mismatch_reported_first [of "full [4] (Fin 1)" "full [5] (Fin 1)"
      do_metric_reduction "MAEMetric (Mode MR_MEAN)"]
  by (simp add: full_def)

section \<open>The per-sample mean\<close>

lemma shared_computation_refines:
  assumes "shape P = shape Y" "2 \<le> length (shape P)" "wf_tensor P" "wf_tensor Y"
  shows "compute_mean_error_metrics P Y g = Inr (per_sample_mean_spec P Y g)"
proof -
  from shape_two [OF assms(2)] obtain b c rest where s: "shape P = b # c # rest" by blast
  let ?n = "prod_list (c # rest)"
  have sY: "shape Y = b # c # rest" using assms(1) s by simp
  have lenP: "length (data P) = b * ?n" using assms(3) by (simp add: wf_tensor_def s)
  have lenY: "length (data Y) = b * ?n" using assms(4) by (simp add: wf_tensor_def sY)
  have row: "take ?n (drop (i * ?n) (map g (map2 fsub (data Y) (data P)))) =
        map2 (\<lambda>y p. g (fsub y p)) (sample_elems Y i) (sample_elems P i)" if "i < b" for i
  proof -
    from that have "i * ?n + ?n \<le> b * ?n" by (rule row_bound)
    then show ?thesis
      using lenP lenY row_of_map2 [of i ?n "data Y" "data P" g fsub]
      by (simp add: sample_elems_def s sY)
  qed
  have "map fmean (rows b ?n (map g (map2 fsub (data Y) (data P)))) =
        map (\<lambda>i. fmean (map2 (\<lambda>y p. g (fsub y p)) (sample_elems Y i) (sample_elems P i))) [0..<b]"
    by (rule map_rows) (simp only: row)
  then show ?thesis
    using compute_mean_error_metrics_wf [OF assms(1) s assms(3,4), of g]
    by (simp add: per_sample_mean_spec_def s)
qed

text \<open>
  C2: for well-formed \<open>P\<close> and \<open>Y\<close> of one shape with at least two dimensions and every
  elementwise error function \<open>f\<close>, the shared computation returns the tensor of shape
  batch size by 1 that holds, for each batch element, the mean of \<open>f (Y - P)\<close> over the
  elements of that sample; so do the MSE metric with the square and the MAE metric with
  the absolute value, on the two tensors as their cast to 32-bit floats leaves them.
\<close>

theorem shared_computation_is_per_sample_mean:
  assumes "shape P = shape Y" "2 \<le> length (shape P)" "wf_tensor P" "wf_tensor Y"
  shows "compute_mean_error_metrics P Y f = Inr (per_sample_mean_spec P Y f) \<and>
         compute_metric (MSEMetric r) P Y = Inr (per_sample_mean_spec (float P) (float Y) sq_func) \<and>
         compute_metric (MAEMetric r) P Y = Inr (per_sample_mean_spec (float P) (float Y) abs_func)"
proof -
  have "shape (float P) = shape (float Y)" "2 \<le> length (shape (float P))"
    "wf_tensor (float P)" "wf_tensor (float Y)"
    using assms by (simp_all add: shape_float wf_tensor_float)
  then show ?thesis
    using shared_computation_refines [OF assms, of f]
      shared_computation_refines [of "float P" "float Y" sq_func]
      shared_computation_refines [of "float P" "float Y" abs_func]
    by simp
qed

theorem shared_computation_is_per_sample_mean_witness:
  "shape \<lparr>shape = [2, 1, 2], data = [Fin 1, Fin 2, Fin 0, Fin 0]\<rparr> =
     shape \<lparr>shape = [2, 1, 2], data = [Fin 3, Fin 5, Fin 1, Fin 0]\<rparr> \<and>
   2 \<le> length (shape \<lparr>shape = [2, 1, 2], data = [Fin 1, Fin 2, Fin 0, Fin 0]\<rparr>) \<and>
   wf_tensor \<lparr>shape = [2, 1, 2], data = [Fin 1, Fin 2, Fin 0, Fin 0]\<rparr> \<and>
   wf_tensor \<lparr>shape = [2, 1, 2], data = [Fin 3, Fin 5, Fin 1, Fin 0]\<rparr> \<and>
   compute_mean_error_metrics \<lparr>shape = [2, 1, 2], data = [Fin 1, Fin 2, Fin 0, Fin 0]\<rparr>
       \<lparr>shape = [2, 1, 2], data = [Fin 3, Fin 5, Fin 1, Fin 0]\<rparr> sq_func =
     Inr \<lparr>shape = [2, 1], data = [Fin (13 / 2), Fin (1 / 2)]\<rparr> \<and>
   compute_metric (MSEMetric (Mode MR_NONE)) \<lparr>shape = [2, 1, 2], data = [Fin 1, Fin 2, Fin 0, Fin 0]\<rparr>
       \<lparr>shape = [2, 1, 2], data = [Fin 3, Fin 5, Fin 1, Fin 0]\<rparr> =
     Inr \<lparr>shape = [2, 1], data = [Fin (13 / 2), Fin (1 / 2)]\<rparr> \<and>
   compute_metric (MAEMetric (Mode MR_NONE)) \<lparr>shape = [2, 1, 2], data = [Fin 1, Fin 2, Fin 0, Fin 0]\<rparr>
       \<lparr>shape = [2, 1, 2], data = [Fin 3, Fin 5, Fin 1, Fin 0]\<rparr> =
     Inr \<lparr>shape = [2, 1], data = [Fin (5 / 2), Fin (1 / 2)]\<rparr>"
proof -
  let ?P = "\<lparr>shape = [2, 1, 2], data = [Fin 1, Fin 2, Fin 0, Fin 0]\<rparr>"
  let ?Y = "\<lparr>shape = [2, 1, 2], data = [Fin 3, Fin 5, Fin 1, Fin 0]\<rparr>"
  have f: "float ?P = ?P" "float ?Y = ?Y"
    by (rule float_exact, auto simp: to_float32_small)+
  show ?thesis
    using shared_computation_is_per_sample_mean [of ?P ?Y sq_func "Mode MR_NONE"]
    unfolding f
    by (simp add: wf_tensor_def per_sample_mean_spec_def sample_elems_def fmean_def fsum_def
        fsub_def upt_conv_Cons)
qed

section \<open>Symmetry\<close>

lemma sq_func_fsub_commute: "sq_func (fsub a b) = sq_func (fsub b a)"
  by (cases a; cases b) (simp_all add: fsub_def power2_commute)

lemma abs_func_fsub_commute: "abs_func (fsub a b) = abs_func (fsub b a)"
  by (cases a; cases b) (simp_all add: fsub_def abs_minus_commute)

lemma compute_mean_error_metrics_swap:
  assumes "\<And>a b. f (fsub a b) = f (fsub b a)" "shape P = shape Y" "2 \<le> length (shape P)"
  shows "\<exists>v. compute_mean_error_metrics P Y f = Inr v \<and> compute_mean_error_metrics Y P f = Inr v"
proof -
  from shape_two [OF assms(3)] obtain b c rest where s: "shape P = b # c # rest" by blast
  have sY: "shape Y = b # c # rest" using assms(2) s by simp
  have sP: "shape Y = shape P" using assms(2) by simp
  show ?thesis
    using compute_mean_error_metrics_eq [OF assms(2) s, of f]
      compute_mean_error_metrics_eq [OF sP sY, of f]
      map2_swap [of f fsub, OF assms(1)]
    by (simp add: assms(2))
qed

text \<open>
  C5: for \<open>P\<close> and \<open>Y\<close> of one shape with at least two dimensions, the per-sample MSE
  values of \<open>(P, Y)\<close> are those of \<open>(Y, P)\<close>, and so are the per-sample MAE values.
\<close>

theorem mse_mae_symmetric:
  assumes "shape P = shape Y" "2 \<le> length (shape P)"
  shows "(\<exists>mse. compute_metric (MSEMetric r) P Y = Inr mse \<and> compute_metric (MSEMetric r) Y P = Inr mse) \<and>
         (\<exists>mae. compute_metric (MAEMetric r) P Y = Inr mae \<and> compute_metric (MAEMetric r) Y P = Inr mae)"
proof -
  have f: "shape (float P) = shape (float Y)" "2 \<le> length (shape (float P))"
    using assms by (simp_all add: shape_float)
  show ?thesis
    using compute_mean_error_metrics_swap [of sq_func "float P" "float Y", OF sq_func_fsub_commute f]
      compute_mean_error_metrics_swap [of abs_func "float P" "float Y", OF abs_func_fsub_commute f]
    by simp
qed

theorem mse_mae_symmetric_witness:
  "shape \<lparr>shape = [1, 2], data = [Fin 1, Fin 2]\<rparr> = shape \<lparr>shape = [1, 2], data = [Fin 3, Fin 5]\<rparr> \<and>
   2 \<le> length (shape \<lparr>shape = [1, 2], data = [Fin 1, Fin 2]\<rparr>) \<and>
   compute_metric (MSEMetric (Mode MR_MEAN)) \<lparr>shape = [1, 2], data = [Fin 1, Fin 2]\<rparr>
       \<lparr>shape = [1, 2], data = [Fin 3, Fin 5]\<rparr> = Inr \<lparr>shape = [1, 1], data = [Fin (13 / 2)]\<rparr> \<and>
   compute_metric (MSEMetric (Mode MR_MEAN)) \<lparr>shape = [1, 2], data = [Fin 3, Fin 5]\<rparr>
       \<lparr>shape = [1, 2], data = [Fin 1, Fin 2]\<rparr> = Inr \<lparr>shape = [1, 1], data = [Fin (13 / 2)]\<rparr> \<and>
   compute_metric (MAEMetric (Mode MR_MEAN)) \<lparr>shape = [1, 2], data = [Fin 1, Fin 2]\<rparr>
       \<lparr>shape = [1, 2], data = [Fin 3, Fin 5]\<rparr> = Inr \<lparr>shape = [1, 1], data = [Fin (5 / 2)]\<rparr> \<and>
   compute_metric (MAEMetric (Mode MR_MEAN)) \<lparr>shape = [1, 2], data = [Fin 3, Fin 5]\<rparr>
       \<lparr>shape = [1, 2], data = [Fin 1, Fin 2]\<rparr> = Inr \<lparr>shape = [1, 1], data = [Fin (5 / 2)]\<rparr>"
proof -
  let ?P = "\<lparr>shape = [1, 2], data = [Fin 1, Fin 2]\<rparr>"
  let ?Y = "\<lparr>shape = [1, 2], data = [Fin 3, Fin 5]\<rparr>"
  have f: "float ?P = ?P" "float ?Y = ?Y"
    by (rule float_exact, auto simp: to_float32_small)+
  have mse: "compute_metric (MSEMetric (Mode MR_MEAN)) ?P ?Y = Inr \<lparr>shape = [1, 1], data = [Fin (13 / 2)]\<rparr>"
    unfolding compute_metric.simps f
    using compute_mean_error_metrics_wf [of ?P ?Y 1 2 "[]" sq_func]
    by (simp add: wf_tensor_def rows_def fmean_def fsum_def fsub_def)
  have mae: "compute_metric (MAEMetric (Mode MR_MEAN)) ?P ?Y = Inr \<lparr>shape = [1, 1], data = [Fin (5 / 2)]\<rparr>"
    unfolding compute_metric.simps f
    using compute_mean_error_metrics_wf [of ?P ?Y 1 2 "[]" abs_func]
    by (simp add: wf_tensor_def rows_def fmean_def fsum_def fsub_def)
  show ?thesis
    using mse_mae_symmetric [of ?P ?Y "Mode MR_MEAN"] mse mae by auto
qed

section \<open>The root of the mean squared error\<close>

lemma not_negative_fadd: "not_negative a \<Longrightarrow> not_negative b \<Longrightarrow> not_negative (fadd a b)"
  by (cases a; cases b) simp_all

lemma not_negative_fsum: "(\<And>x. x \<in> set xs \<Longrightarrow> not_negative x) \<Longrightarrow> not_negative (fsum xs)"
  by (induction xs) (simp_all add: fsum_def not_negative_fadd)

lemma not_negative_fdiv_count: "not_negative a \<Longrightarrow> not_negative (fdiv_count a n)"
  by (cases a) simp_all

lemma not_negative_fmean: "(\<And>x. x \<in> set xs \<Longrightarrow> not_negative x) \<Longrightarrow> not_negative (fmean xs)"
  by (simp add: fmean_def not_negative_fdiv_count not_negative_fsum)

lemma not_negative_sq_func: "not_negative (sq_func x)"
  by (cases x) simp_all

lemma not_negative_rows:
  assumes "\<And>x. x \<in> set xs \<Longrightarrow> not_negative x" "v \<in> set (map fmean (rows m n xs))"
  shows "not_negative v"
proof -
  from assms(2) obtain i where v: "v = fmean (take n (drop (i * n) xs))"
    by (auto simp: rows_def)
  have "not_negative x" if "x \<in> set (take n (drop (i * n) xs))" for x
    using that assms(1) by (meson in_set_dropD in_set_takeD)
  then show ?thesis unfolding v by (rule not_negative_fmean)
qed

text \<open>
  C3: for \<open>P\<close> and \<open>Y\<close> of one shape with at least two dimensions, the per-sample RMSE
  tensor is the per-sample MSE tensor with the square root taken of every element. No
  element of the MSE tensor is below zero, so the root never meets a negative number.
\<close>

theorem rmse_is_sqrt_of_mse:
  assumes "shape P = shape Y" "2 \<le> length (shape P)"
  shows "\<exists>mse. compute_metric (MSEMetric r) P Y = Inr mse \<and>
           compute_metric (RMSEMetric r') P Y = Inr (tmap fsqrt mse) \<and>
           shape mse = [hd (shape P), 1] \<and>
           (\<forall>x \<in> set (data mse). not_negative x)"
proof -
  from shape_two [OF assms(2)] obtain b c rest where s: "shape P = b # c # rest" by blast
  let ?P = "float P" and ?Y = "float Y"
  have sf: "shape ?P = shape ?Y" "shape ?P = b # c # rest"
    using assms(1) s by (simp_all add: shape_float)
  let ?xs = "map sq_func (map2 fsub (expand (shape ?Y) (shape ?Y) (data ?Y))
                                     (expand (shape ?Y) (shape ?Y) (data ?P)))"
  let ?mse = "\<lparr>shape = [b, 1], data = map fmean (rows b (prod_list (c # rest)) ?xs)\<rparr>"
  have c: "compute_mean_error_metrics ?P ?Y sq_func = Inr ?mse"
    by (rule compute_mean_error_metrics_eq [OF sf])
  have "not_negative x" if "x \<in> set ?xs" for x
    using that by (auto simp: not_negative_sq_func)
  then have "\<forall>x \<in> set (data ?mse). not_negative x"
    using not_negative_rows [of ?xs _ b "prod_list (c # rest)"] by simp
  with c s show ?thesis by simp
qed

theorem rmse_is_sqrt_of_mse_witness:
  "shape \<lparr>shape = [1, 2], data = [Fin 1, Fin 1]\<rparr> = shape \<lparr>shape = [1, 2], data = [Fin 3, Fin 3]\<rparr> \<and>
   2 \<le> length (shape \<lparr>shape = [1, 2], data = [Fin 1, Fin 1]\<rparr>) \<and>
   compute_metric (MSEMetric (Mode MR_MEAN)) \<lparr>shape = [1, 2], data = [Fin 1, Fin 1]\<rparr>
       \<lparr>shape = [1, 2], data = [Fin 3, Fin 3]\<rparr> = Inr \<lparr>shape = [1, 1], data = [Fin 4]\<rparr> \<and>
   compute_metric (RMSEMetric (Mode MR_MEAN)) \<lparr>shape = [1, 2], data = [Fin 1, Fin 1]\<rparr>
       \<lparr>shape = [1, 2], data = [Fin 3, Fin 3]\<rparr> = Inr \<lparr>shape = [1, 1], data = [Fin 2]\<rparr>"
proof -
  let ?P = "\<lparr>shape = [1, 2], data = [Fin 1, Fin 1]\<rparr>"
  let ?Y = "\<lparr>shape = [1, 2], data = [Fin 3, Fin 3]\<rparr>"
  have f: "float ?P = ?P" "float ?Y = ?Y"
    by (rule float_exact, auto simp: to_float32_small)+
  have e: "compute_metric (MSEMetric (Mode MR_MEAN)) ?P ?Y = Inr \<lparr>shape = [1, 1], data = [Fin 4]\<rparr>"
    unfolding compute_metric.simps f
    using compute_mean_error_metrics_wf [of ?P ?Y 1 2 "[]" sq_func]
    by (simp add: wf_tensor_def rows_def fmean_def fsum_def fsub_def)
  have "sqrt 4 = 2" using real_sqrt_abs [of 2] by simp
  then show ?thesis
    using rmse_is_sqrt_of_mse [of ?P ?Y "Mode MR_MEAN" "Mode MR_MEAN"] e
    by (auto simp: tmap_def)
qed

section \<open>A tensor against itself\<close>

lemma fsum_replicate: "fsum (replicate n (Fin a)) = Fin (real n * a)"
  by (induction n) (simp_all add: fsum_def algebra_simps)

lemma fmean_replicate: "0 < n \<Longrightarrow> fmean (replicate n (Fin a)) = Fin a"
  by (simp add: fmean_def fsum_replicate)

lemma rows_replicate:
  assumes "0 < n"
  shows "map fmean (rows m n (replicate (m * n) (Fin a))) = replicate m (Fin a)"
proof -
  have "map fmean (rows m n (replicate (m * n) (Fin a))) = map (\<lambda>i. Fin a) [0..<m]"
    by (rule map_rows) (simp add: row_of_replicate fmean_replicate assms)
  then show ?thesis by (simp add: map_replicate_const)
qed

lemma compute_mean_error_metrics_const:
  assumes "shape P = shape Y" "shape P = b # c # rest" "wf_tensor P" "wf_tensor Y"
    and "map f (map2 fsub (data Y) (data P)) = replicate (prod_list (shape P)) (Fin e)"
    and "0 < prod_list (c # rest)"
  shows "compute_mean_error_metrics P Y f = Inr (full [b, 1] (Fin e))"
proof -
  have "prod_list (shape P) = b * prod_list (c # rest)" by (simp add: assms(2))
  then show ?thesis
    using compute_mean_error_metrics_wf [OF assms(1-4), of f] assms(5)
      rows_replicate [OF assms(6), of b e]
    by (simp add: full_def)
qed

lemma fsub_self: "isfinite x \<Longrightarrow> fsub x x = Fin 0"
  by (cases x) (simp_all add: fsub_def)

lemma map2_fsub_self:
  "(\<And>x. x \<in> set xs \<Longrightarrow> isfinite x) \<Longrightarrow> f (Fin 0) = Fin 0 \<Longrightarrow>
   map f (map2 fsub xs xs) = replicate (length xs) (Fin 0)"
  by (induction xs) (simp_all add: fsub_self)

lemma zero_error_self:
  assumes "wf_tensor P" "2 \<le> length (shape P)" "\<forall>x \<in> set (data P). isfinite x"
    and "0 < prod_list (tl (shape P))" "f (Fin 0) = Fin 0"
  shows "compute_mean_error_metrics P P f = Inr (full [hd (shape P), 1] (Fin 0))"
proof -
  from shape_two [OF assms(2)] obtain b c rest where s: "shape P = b # c # rest" by blast
  have "map f (map2 fsub (data P) (data P)) = replicate (prod_list (shape P)) (Fin 0)"
    using map2_fsub_self [of "data P" f] assms(1,3,5) by (simp add: wf_tensor_def)
  moreover have "0 < prod_list (c # rest)" using assms(4) s by simp
  ultimately show ?thesis
    using compute_mean_error_metrics_const [OF refl s assms(1) assms(1), of f 0] s by simp
qed

lemma zero_error_self_float:
  assumes "wf_tensor P" "2 \<le> length (shape P)" "\<forall>x \<in> set (data P). isfinite (to_float32 x)"
    and "0 < prod_list (tl (shape P))" "f (Fin 0) = Fin 0"
  shows "compute_mean_error_metrics (float P) (float P) f = Inr (full [hd (shape P), 1] (Fin 0))"
proof -
  have "wf_tensor (float P)" "2 \<le> length (shape (float P))"
    "\<forall>x \<in> set (data (float P)). isfinite x" "0 < prod_list (tl (shape (float P)))"
    using assms(1-4) by (simp_all add: wf_tensor_float shape_float data_float)
  from zero_error_self [of "float P" f, OF this assms(5)] show ?thesis
    by (simp add: shape_float)
qed

lemma nan_on_empty_or_infinite:
  "compute_mean_error_metrics (float \<lparr>shape = [1, 0], data = []\<rparr>)
       (float \<lparr>shape = [1, 0], data = []\<rparr>) sq_func = Inr \<lparr>shape = [1, 1], data = [NaN]\<rparr>"
  "compute_mean_error_metrics (float \<lparr>shape = [1, 0], data = []\<rparr>)
       (float \<lparr>shape = [1, 0], data = []\<rparr>) abs_func = Inr \<lparr>shape = [1, 1], data = [NaN]\<rparr>"
  "compute_mean_error_metrics (float \<lparr>shape = [1, 1], data = [PInf]\<rparr>)
       (float \<lparr>shape = [1, 1], data = [PInf]\<rparr>) sq_func = Inr \<lparr>shape = [1, 1], data = [NaN]\<rparr>"
  "compute_mean_error_metrics (float \<lparr>shape = [1, 1], data = [PInf]\<rparr>)
       (float \<lparr>shape = [1, 1], data = [PInf]\<rparr>) abs_func = Inr \<lparr>shape = [1, 1], data = [NaN]\<rparr>"
  "compute_mean_error_metrics (float \<lparr>shape = [1, 1], data = [Fin (2 ^ 130)]\<rparr>)
       (float \<lparr>shape = [1, 1], data = [Fin (2 ^ 130)]\<rparr>) sq_func = Inr \<lparr>shape = [1, 1], data = [NaN]\<rparr>"
  "compute_mean_error_metrics (float \<lparr>shape = [1, 1], data = [Fin (2 ^ 130)]\<rparr>)
       (float \<lparr>shape = [1, 1], data = [Fin (2 ^ 130)]\<rparr>) abs_func = Inr \<lparr>shape = [1, 1], data = [NaN]\<rparr>"
  unfolding float_overflow
  by (simp_all add: compute_mean_error_metrics_def tensor_binop_def broadcast_shapes_def
      pad_shape_def flt_def mean_last_keepdim_def rows_def fmean_def fsum_def tmap_def fsub_def
      float_def)

text \<open>
  C6 as the specification states it, for every tensor with at least two dimensions, does
  not hold. A tensor of shape (1, 0) has two dimensions and no element: the mean over
  its one empty sample is NaN. A tensor that holds an infinite element gives NaN as
  well, since infinity minus infinity is NaN; and so does one that holds two to the
  130, a finite 64-bit float that the cast to 32 bits makes infinite.
\<close>

theorem mse_mae_of_self_counterexample:
  "compute_metric (MSEMetric (Mode MR_MEAN)) \<lparr>shape = [1, 0], data = []\<rparr> \<lparr>shape = [1, 0], data = []\<rparr>
     = Inr \<lparr>shape = [1, 1], data = [NaN]\<rparr> \<and>
   compute_metric (MAEMetric (Mode MR_MEAN)) \<lparr>shape = [1, 0], data = []\<rparr> \<lparr>shape = [1, 0], data = []\<rparr>
     = Inr \<lparr>shape = [1, 1], data = [NaN]\<rparr> \<and>
   compute_metric (MSEMetric (Mode MR_MEAN)) \<lparr>shape = [1, 1], data = [PInf]\<rparr> \<lparr>shape = [1, 1], data = [PInf]\<rparr>
     = Inr \<lparr>shape = [1, 1], data = [NaN]\<rparr> \<and>
   compute_metric (MAEMetric (Mode MR_MEAN)) \<lparr>shape = [1, 1], data = [PInf]\<rparr> \<lparr>shape = [1, 1], data = [PInf]\<rparr>
     = Inr \<lparr>shape = [1, 1], data = [NaN]\<rparr> \<and>
   compute_metric (MSEMetric (Mode MR_MEAN)) \<lparr>shape = [1, 1], data = [Fin (2 ^ 130)]\<rparr>
       \<lparr>shape = [1, 1], data = [Fin (2 ^ 130)]\<rparr>
     = Inr \<lparr>shape = [1, 1], data = [NaN]\<rparr> \<and>
   compute_metric (MAEMetric (Mode MR_MEAN)) \<lparr>shape = [1, 1], data = [Fin (2 ^ 130)]\<rparr>
       \<lparr>shape = [1, 1], data = [Fin (2 ^ 130)]\<rparr>
     = Inr \<lparr>shape = [1, 1], data = [NaN]\<rparr>"
  unfolding compute_metric.simps by (intro conjI nan_on_empty_or_infinite)

text \<open>
  C6, amended: for every well-formed tensor \<open>P\<close> with at least two dimensions, elements
  that are finite as 32-bit floats (finite after the cast) and at least one element in
  each sample, the per-sample MSE of \<open>(P, P)\<close> is zero for every batch element, and so
  is the per-sample MAE.
\<close>

theorem mse_mae_of_self_zero:
  assumes "wf_tensor P" "2 \<le> length (shape P)" "\<forall>x \<in> set (data P). isfinite (to_float32 x)"
    and "0 < prod_list (tl (shape P))"
  shows "compute_metric (MSEMetric r) P P = Inr (full [hd (shape P), 1] (Fin 0)) \<and>
         compute_metric (MAEMetric r) P P = Inr (full [hd (shape P), 1] (Fin 0))"
  using zero_error_self_float [OF assms, of sq_func] zero_error_self_float [OF assms, of abs_func]
  by simp

theorem mse_mae_of_self_zero_witness:
  "wf_tensor \<lparr>shape = [2, 1, 2], data = [Fin 1, Fin 2, Fin 3, Fin 4]\<rparr> \<and>
   2 \<le> length (shape \<lparr>shape = [2, 1, 2], data = [Fin 1, Fin 2, Fin 3, Fin 4]\<rparr>) \<and>
   list_all (\<lambda>x. isfinite (to_float32 x)) (data \<lparr>shape = [2, 1, 2], data = [Fin 1, Fin 2, Fin 3, Fin 4]\<rparr>) \<and>
   0 < prod_list (tl (shape \<lparr>shape = [2, 1, 2], data = [Fin 1, Fin 2, Fin 3, Fin 4]\<rparr>)) \<and>
   compute_metric (MSEMetric (Mode MR_MEAN)) \<lparr>shape = [2, 1, 2], data = [Fin 1, Fin 2, Fin 3, Fin 4]\<rparr>
       \<lparr>shape = [2, 1, 2], data = [Fin 1, Fin 2, Fin 3, Fin 4]\<rparr> = Inr \<lparr>shape = [2, 1], data = [Fin 0, Fin 0]\<rparr> \<and>
   compute_metric (MAEMetric (Mode MR_MEAN)) \<lparr>shape = [2, 1, 2], data = [Fin 1, Fin 2, Fin 3, Fin 4]\<rparr>
       \<lparr>shape = [2, 1, 2], data = [Fin 1, Fin 2, Fin 3, Fin 4]\<rparr> = Inr \<lparr>shape = [2, 1], data = [Fin 0, Fin 0]\<rparr>"
  using mse_mae_of_self_zero [of "\<lparr>shape = [2, 1, 2], data = [Fin 1, Fin 2, Fin 3, Fin 4]\<rparr>" "Mode MR_MEAN"]
  by (simp add: wf_tensor_def full_def numeral_2_eq_2 list_all_iff to_float32_small)

section \<open>Peak signal-to-noise ratio\<close>

lemma psnr_value_zero: "positive max_val \<Longrightarrow> psnr_value max_val (Fin 0) = PInf"
  by (cases max_val) (simp_all add: psnr_value_def fsub_def signed_inf_def)

lemma psnr_value_pos:
  "0 < m \<Longrightarrow> 0 < x \<Longrightarrow> psnr_value (Fin m) (Fin x) = Fin (20 * log 10 m - 10 * log 10 x)"
  by (simp add: psnr_value_def fsub_def)

lemma math_log10_positive: "positive max_val \<Longrightarrow> math_log10 max_val = Inr (flog10 max_val)"
  by (cases max_val) simp_all

lemma psnr_compute:
  assumes "compute_metric (MSEMetric r) P Y = Inr mse" "positive max_val"
  shows "compute_metric (PSNRMetric max_val r') P Y = Inr (tmap (psnr_value max_val) mse)"
proof -
  have "(\<lambda>x. fsub (fmul (Fin 20) (flog10 max_val)) (fmul (Fin 10) (flog10 x))) = psnr_value max_val"
    by (rule ext) (simp add: psnr_value_def)
  then show ?thesis using assms(1) math_log10_positive [OF assms(2)] by simp
qed

lemma psnr_nan_on_empty_or_infinite:
  "compute_metric (PSNRMetric (Fin 255) (Mode MR_MEAN))
     \<lparr>shape = [1, 0], data = []\<rparr> \<lparr>shape = [1, 0], data = []\<rparr> = Inr \<lparr>shape = [1, 1], data = [NaN]\<rparr>"
  "compute_metric (PSNRMetric (Fin 255) (Mode MR_MEAN))
     \<lparr>shape = [1, 1], data = [PInf]\<rparr> \<lparr>shape = [1, 1], data = [PInf]\<rparr> = Inr \<lparr>shape = [1, 1], data = [NaN]\<rparr>"
  "compute_metric (PSNRMetric (Fin 255) (Mode MR_MEAN))
     \<lparr>shape = [1, 1], data = [Fin (2 ^ 130)]\<rparr> \<lparr>shape = [1, 1], data = [Fin (2 ^ 130)]\<rparr>
     = Inr \<lparr>shape = [1, 1], data = [NaN]\<rparr>"
  unfolding compute_metric.simps nan_on_empty_or_infinite
  by (simp_all add: tmap_def fsub_def)

lemma psnr_on_ones:
  "compute_metric (PSNRMetric (Fin 0) (Mode MR_MEAN))
     \<lparr>shape = [1, 1], data = [Fin 1]\<rparr> \<lparr>shape = [1, 1], data = [Fin 1]\<rparr> = Inl MathDomainError"
  "compute_metric (PSNRMetric (Fin (- 1)) (Mode MR_MEAN))
     \<lparr>shape = [1, 1], data = [Fin 1]\<rparr> \<lparr>shape = [1, 1], data = [Fin 1]\<rparr> = Inl MathDomainError"
  "compute_metric (PSNRMetric NaN (Mode MR_MEAN))
     \<lparr>shape = [1, 1], data = [Fin 1]\<rparr> \<lparr>shape = [1, 1], data = [Fin 1]\<rparr>
     = Inr \<lparr>shape = [1, 1], data = [NaN]\<rparr>"
proof -
  have f: "float \<lparr>shape = [1, 1], data = [Fin 1]\<rparr> = \<lparr>shape = [1, 1], data = [Fin 1]\<rparr>"
    by (rule float_exact) (auto simp: to_float32_small)
  show "compute_metric (PSNRMetric (Fin 0) (Mode MR_MEAN))
     \<lparr>shape = [1, 1], data = [Fin 1]\<rparr> \<lparr>shape = [1, 1], data = [Fin 1]\<rparr> = Inl MathDomainError"
    "compute_metric (PSNRMetric (Fin (- 1)) (Mode MR_MEAN))
     \<lparr>shape = [1, 1], data = [Fin 1]\<rparr> \<lparr>shape = [1, 1], data = [Fin 1]\<rparr> = Inl MathDomainError"
    "compute_metric (PSNRMetric NaN (Mode MR_MEAN))
     \<lparr>shape = [1, 1], data = [Fin 1]\<rparr> \<lparr>shape = [1, 1], data = [Fin 1]\<rparr>
     = Inr \<lparr>shape = [1, 1], data = [NaN]\<rparr>"
    unfolding compute_metric.simps f
    by (simp_all add: compute_mean_error_metrics_def tensor_binop_def broadcast_shapes_def
        pad_shape_def flt_def mean_last_keepdim_def rows_def fmean_def fsum_def tmap_def fsub_def)
qed

text \<open>
  C4 as the specification states it, for every \<open>max_val\<close> and with plus infinity
  whenever \<open>P\<close> equals \<open>Y\<close>, does not hold. With \<open>max_val\<close> zero or negative
  \<^verbatim>\<open>math.log10\<close> raises, in \<^verbatim>\<open>_compute_metric\<close> and so in the call; with \<open>max_val\<close> NaN
  the result is NaN. With \<open>P = Y\<close> of shape (1, 0), or holding an infinite element, or
  holding two to the 130 (finite in 64 bits, infinite after the cast to 32 bits), the
  per-sample MSE is NaN and so is the PSNR.
\<close>

theorem psnr_raises_or_is_nan_counterexample:
  "compute_metric (PSNRMetric (Fin 0) (Mode MR_MEAN))
     \<lparr>shape = [1, 1], data = [Fin 1]\<rparr> \<lparr>shape = [1, 1], data = [Fin 1]\<rparr> = Inl MathDomainError \<and>
   compute_metric (PSNRMetric (Fin (- 1)) (Mode MR_MEAN))
     \<lparr>shape = [1, 1], data = [Fin 1]\<rparr> \<lparr>shape = [1, 1], data = [Fin 1]\<rparr> = Inl MathDomainError \<and>
   metric_call do_metric_reduction (PSNRMetric (Fin 0) (Mode MR_MEAN))
     \<lparr>shape = [1, 1], data = [Fin 1]\<rparr> \<lparr>shape = [1, 1], data = [Fin 1]\<rparr> = Inl MathDomainError \<and>
   compute_metric (PSNRMetric NaN (Mode MR_MEAN))
     \<lparr>shape = [1, 1], data = [Fin 1]\<rparr> \<lparr>shape = [1, 1], data = [Fin 1]\<rparr>
     = Inr \<lparr>shape = [1, 1], data = [NaN]\<rparr> \<and>
   compute_metric (PSNRMetric (Fin 255) (Mode MR_MEAN))
     \<lparr>shape = [1, 0], data = []\<rparr> \<lparr>shape = [1, 0], data = []\<rparr> = Inr \<lparr>shape = [1, 1], data = [NaN]\<rparr> \<and>
   compute_metric (PSNRMetric (Fin 255) (Mode MR_MEAN))
     \<lparr>shape = [1, 1], data = [PInf]\<rparr> \<lparr>shape = [1, 1], data = [PInf]\<rparr> = Inr \<lparr>shape = [1, 1], data = [NaN]\<rparr> \<and>
   compute_metric (PSNRMetric (Fin 255) (Mode MR_MEAN))
     \<lparr>shape = [1, 1], data = [Fin (2 ^ 130)]\<rparr> \<lparr>shape = [1, 1], data = [Fin (2 ^ 130)]\<rparr>
     = Inr \<lparr>shape = [1, 1], data = [NaN]\<rparr>"
proof -
  have "metric_call do_metric_reduction (PSNRMetric (Fin 0) (Mode MR_MEAN))
     \<lparr>shape = [1, 1], data = [Fin 1]\<rparr> \<lparr>shape = [1, 1], data = [Fin 1]\<rparr> = Inl MathDomainError"
    unfolding metric_call_def RegressionMetric_call_def psnr_on_ones
    by (simp add: check_shape_def)
  then show ?thesis
    by (intro conjI psnr_on_ones psnr_nan_on_empty_or_infinite)
qed

text \<open>
  C4, amended: for every positive \<open>max_val\<close> (a finite number above zero, or plus
  infinity) and \<open>P\<close>, \<open>Y\<close> of one shape with at least two dimensions, the per-sample PSNR
  tensor is the per-sample MSE tensor with every element \<open>x\<close> replaced by 20 log10
  \<open>max_val\<close> minus 10 log10 \<open>x\<close>: that is the real number of this formula where
  \<open>max_val\<close> is finite and \<open>x\<close> is a positive number, and plus infinity where \<open>x\<close> is
  zero, neither an error nor a clamped value. In particular, when \<open>P\<close> equals \<open>Y\<close>, is
  well-formed, and has elements that are finite as 32-bit floats and at least one
  element in each sample, every per-sample PSNR is plus infinity.
\<close>

theorem psnr_formula:
  assumes "shape P = shape Y" "2 \<le> length (shape P)" "positive max_val"
  shows "(\<exists>mse. compute_metric (MSEMetric r) P Y = Inr mse \<and>
            compute_metric (PSNRMetric max_val r') P Y = Inr (tmap (psnr_value max_val) mse)) \<and>
         (\<forall>m x. max_val = Fin m \<and> 0 < x \<longrightarrow>
            psnr_value max_val (Fin x) = Fin (20 * log 10 m - 10 * log 10 x)) \<and>
         psnr_value max_val (Fin 0) = PInf \<and>
         (P = Y \<and> wf_tensor P \<and> (\<forall>x \<in> set (data P). isfinite (to_float32 x)) \<and>
            0 < prod_list (tl (shape P)) \<longrightarrow>
            compute_metric (PSNRMetric max_val r') P Y = Inr (full [hd (shape P), 1] PInf))"
proof -
  from mse_defined [OF assms(1,2), of r]
  obtain mse where mse: "compute_metric (MSEMetric r) P Y = Inr mse" by blast
  have a: "\<exists>mse. compute_metric (MSEMetric r) P Y = Inr mse \<and>
            compute_metric (PSNRMetric max_val r') P Y = Inr (tmap (psnr_value max_val) mse)"
    using mse psnr_compute [OF mse assms(3), of r'] by blast
  have b: "P = Y \<and> wf_tensor P \<and> (\<forall>x \<in> set (data P). isfinite (to_float32 x)) \<and>
            0 < prod_list (tl (shape P)) \<longrightarrow>
            compute_metric (PSNRMetric max_val r') P Y = Inr (full [hd (shape P), 1] PInf)"
  proof (intro impI, elim conjE)
    assume that: "P = Y" "wf_tensor P" "\<forall>x \<in> set (data P). isfinite (to_float32 x)"
      "0 < prod_list (tl (shape P))"
    have "compute_metric (MSEMetric r) P P = Inr (full [hd (shape P), 1] (Fin 0))"
      using zero_error_self_float [OF that(2) assms(2) that(3,4), of sq_func] by simp
    from psnr_compute [OF this assms(3), of r']
    show "compute_metric (PSNRMetric max_val r') P Y = Inr (full [hd (shape P), 1] PInf)"
      unfolding that(1) [symmetric] by (simp only: tmap_full psnr_value_zero [OF assms(3)])
  qed
  have c: "\<forall>m x. max_val = Fin m \<and> 0 < x \<longrightarrow>
            psnr_value max_val (Fin x) = Fin (20 * log 10 m - 10 * log 10 x)"
    using assms(3) by (auto simp: psnr_value_pos)
  show ?thesis by (intro conjI) (rule a c psnr_value_zero [OF assms(3)] b)+
qed

theorem psnr_formula_witness:
  "shape (full [1, 1, 2, 2] (Fin 1)) = shape (full [1, 1, 2, 2] (Fin 1)) \<and>
   2 \<le> length (shape (full [1, 1, 2, 2] (Fin 1))) \<and> positive (Fin 255) \<and> positive PInf \<and>
   wf_tensor (full [1, 1, 2, 2] (Fin 1)) \<and>
   list_all (\<lambda>x. isfinite (to_float32 x)) (data (full [1, 1, 2, 2] (Fin 1))) \<and>
   0 < prod_list (tl (shape (full [1, 1, 2, 2] (Fin 1)))) \<and>
   psnr_value (Fin 255) (Fin 4) = Fin (20 * log 10 255 - 10 * log 10 4) \<and>
   compute_metric (PSNRMetric (Fin 255) (Mode MR_NONE)) (full [1, 1, 2, 2] (Fin 1))
     (full [1, 1, 2, 2] (Fin 1)) = Inr \<lparr>shape = [1, 1], data = [PInf]\<rparr> \<and>
   compute_metric (PSNRMetric PInf (Mode MR_NONE)) (full [1, 1, 2, 2] (Fin 1))
     (full [1, 1, 2, 2] (Fin 1)) = Inr \<lparr>shape = [1, 1], data = [PInf]\<rparr>"
  using psnr_formula [of "full [1, 1, 2, 2] (Fin 1)" "full [1, 1, 2, 2] (Fin 1)" "Fin 255"
      "Mode MR_NONE" "Mode MR_NONE"]
    psnr_formula [of "full [1, 1, 2, 2] (Fin 1)" "full [1, 1, 2, 2] (Fin 1)" PInf
      "Mode MR_NONE" "Mode MR_NONE"]
  by (simp add: full_def wf_tensor_def list_all_iff to_float32_small)

section \<open>The concrete scenario\<close>

lemma compute_mean_error_metrics_full:
  assumes "s = b # c # rest" "0 < prod_list (c # rest)" "f (fsub (Fin y) (Fin p)) = Fin e"
  shows "compute_mean_error_metrics (full s (Fin p)) (full s (Fin y)) f = Inr (full [b, 1] (Fin e))"
proof -
  have "map f (map2 fsub (data (full s (Fin y))) (data (full s (Fin p)))) =
          replicate (prod_list (shape (full s (Fin p)))) (Fin e)"
    using assms(3) by (simp add: full_def zip_replicate)
  moreover have "shape (full s (Fin p)) = b # c # rest" "shape (full s (Fin p)) = shape (full s (Fin y))"
    "wf_tensor (full s (Fin p))" "wf_tensor (full s (Fin y))"
    using assms(1) by (simp_all add: full_def wf_tensor_def)
  ultimately show ?thesis
    using assms(2) by (intro compute_mean_error_metrics_const)
qed

lemma call_mean_single:
  assumes "compute_metric m P Y = Inr (full [1, 1] (Fin v))" "check_shape P Y = Inr ()"
    "reduction m = Mode MR_MEAN"
  shows "metric_call do_metric_reduction m P Y = Inr (scalar (Fin v), scalar (Fin 1))"
  using assms
  by (simp add: metric_call_def RegressionMetric_call_def do_metric_reduction_def
      look_up_reduction_def nanmean_def not_nans_count_def fmean_def fsum_def full_def)

lemma check_shape_full: "2 \<le> length s \<Longrightarrow> check_shape (full s a) (full s b) = Inr ()"
  by (simp add: check_shape_def full_def)

lemma mse_of_scenario:
  "compute_metric (MSEMetric r) (full [1, 1, 2, 2] (Fin 1)) (full [1, 1, 2, 2] (Fin 3)) = Inr (full [1, 1] (Fin 4))"
  using compute_mean_error_metrics_full [of "[1, 1, 2, 2]" 1 1 "[2, 2]" sq_func 3 1 4]
  by (simp add: float_full to_float32_small fsub_def)

lemma mae_of_scenario:
  "compute_metric (MAEMetric r) (full [1, 1, 2, 2] (Fin 1)) (full [1, 1, 2, 2] (Fin 3)) = Inr (full [1, 1] (Fin 2))"
  using compute_mean_error_metrics_full [of "[1, 1, 2, 2]" 1 1 "[2, 2]" abs_func 3 1 2]
  by (simp add: float_full to_float32_small fsub_def)

lemma rmse_of_scenario:
  "compute_metric (RMSEMetric r) (full [1, 1, 2, 2] (Fin 1)) (full [1, 1, 2, 2] (Fin 3)) = Inr (full [1, 1] (Fin 2))"
proof -
  have "sqrt 4 = 2" using real_sqrt_abs [of 2] by simp
  then show ?thesis
    using compute_mean_error_metrics_full [of "[1, 1, 2, 2]" 1 1 "[2, 2]" sq_func 3 1 4]
    by (simp add: float_full to_float32_small fsub_def tmap_full)
qed

lemma psnr_of_scenario:
  "compute_metric (PSNRMetric (Fin 255) r) (full [1, 1, 2, 2] (Fin 1)) (full [1, 1, 2, 2] (Fin 3)) =
     Inr (full [1, 1] (Fin (20 * log 10 255 - 10 * log 10 4)))"
proof -
  have "psnr_value (Fin 255) (Fin 4) = Fin (20 * log 10 255 - 10 * log 10 4)"
    by (rule psnr_value_pos) simp_all
  then show ?thesis
    using psnr_compute [OF mse_of_scenario, of "Fin 255" r] by (simp add: tmap_full)
qed

lemma psnr_call_of_scenario:
  "metric_call do_metric_reduction (PSNRMetric (Fin 255) (Mode MR_MEAN))
     (full [1, 1, 2, 2] (Fin 1)) (full [1, 1, 2, 2] (Fin 3))
     = Inr (scalar (Fin (20 * log 10 255 - 10 * log 10 4)), scalar (Fin 1))"
  by (intro call_mean_single psnr_of_scenario check_shape_full) simp_all

subsection \<open>The size of the PSNR value\<close>

lemma log10_lower:
  assumes "(10::int) ^ a * q ^ k < p ^ k" "0 < q" "0 < p" "0 < k"
  shows "real a / real k < log 10 (real_of_int p / real_of_int q)"
proof -
  let ?x = "real_of_int p / real_of_int q"
  have x: "0 < ?x" using assms by simp
  have "real_of_int (10 ^ a * q ^ k) < real_of_int (p ^ k)"
    using assms(1) by (simp only: of_int_less_iff)
  then have "(10::real) ^ a * real_of_int q ^ k < real_of_int p ^ k" by simp
  then have "(10::real) ^ a < ?x ^ k"
    using assms(2) by (simp add: power_divide pos_less_divide_eq)
  then have "log 10 (10 ^ a) < log 10 (?x ^ k)"
    using x by (simp add: log_less_cancel_iff del: log_pow_cancel)
  then have "real a < real k * log 10 ?x" using x by (simp add: log_nat_power)
  then show ?thesis using assms(4) by (simp add: field_simps)
qed

lemma log10_upper:
  assumes "p ^ k < (10::int) ^ a * q ^ k" "0 < q" "0 < p" "0 < k"
  shows "log 10 (real_of_int p / real_of_int q) < real a / real k"
proof -
  let ?x = "real_of_int p / real_of_int q"
  have x: "0 < ?x" using assms by simp
  have "real_of_int (p ^ k) < real_of_int (10 ^ a * q ^ k)"
    using assms(1) by (simp only: of_int_less_iff)
  then have "real_of_int p ^ k < (10::real) ^ a * real_of_int q ^ k" by simp
  then have "?x ^ k < (10::real) ^ a"
    using assms(2) by (simp add: power_divide pos_divide_less_eq)
  then have "log 10 (?x ^ k) < log 10 (10 ^ a)"
    using x by (simp add: log_less_cancel_iff del: log_pow_cancel)
  then have "real k * log 10 ?x < real a" using x by (simp add: log_nat_power)
  then show ?thesis using assms(4) by (simp add: field_simps)
qed

lemma psnr_value_eq:
  "20 * log 10 255 - 10 * log 10 4 = 10 * log 10 (real_of_int 65025 / real_of_int 4)"
proof -
  have "log 10 (65025 / 4 :: real) = log 10 65025 - log 10 4"
    by (simp add: log_divide)
  also have "(65025::real) = 255 ^ 2" by simp
  also have "log 10 ((255::real) ^ 2) = 2 * log 10 255"
    using log_nat_power [of 255 10 2] by simp
  finally show ?thesis by simp
qed

lemma power_below: "(10::int) ^ 80 * 4 ^ 19 < 65025 ^ 19"
  by simp

lemma power_above: "(65025::int) ^ 71 < 10 ^ 299 * 4 ^ 71"
  by simp

lemma psnr_bounds:
  "42.105 < 20 * log 10 255 - 10 * log 10 (4::real)"
  "20 * log 10 255 - 10 * log 10 (4::real) < 42.115"
proof -
  have "real 80 / real 19 < log 10 (real_of_int 65025 / real_of_int 4)"
    by (rule log10_lower [OF power_below]) simp_all
  moreover have "log 10 (real_of_int 65025 / real_of_int 4) < real 299 / real 71"
    by (rule log10_upper [OF power_above]) simp_all
  ultimately show "42.105 < 20 * log 10 255 - 10 * log 10 (4::real)"
    "20 * log 10 255 - 10 * log 10 (4::real) < 42.115"
    unfolding psnr_value_eq by simp_all
qed

text \<open>
  C7 as the specification states it does not hold in its last number: for \<open>P\<close> constant 1
  and \<open>Y\<close> constant 3 of shape (1,1,2,2), PSNR with \<open>max_val\<close> 255 and reduction mean
  returns 20 log10 255 - 10 log10 4, and that value is more than 6 below 48.13.
\<close>

theorem scenario_psnr_figure_counterexample:
  "metric_call do_metric_reduction (PSNRMetric (Fin 255) (Mode MR_MEAN))
     (full [1, 1, 2, 2] (Fin 1)) (full [1, 1, 2, 2] (Fin 3))
     = Inr (scalar (Fin (20 * log 10 255 - 10 * log 10 4)), scalar (Fin 1)) \<and>
   6 < 48.13 - (20 * log 10 255 - 10 * log 10 (4::real))"
  using psnr_call_of_scenario psnr_bounds(2) by simp

text \<open>
  C7, amended: for \<open>P\<close> constant 1 and \<open>Y\<close> constant 3, both of shape (1,1,2,2), with
  reduction mode mean, MSE returns 4, MAE returns 2, RMSE returns 2, and PSNR with
  \<open>max_val\<close> 255 returns 20 log10 255 - 10 log10 4, which is 42.11 to two decimal places;
  each comes with the count 1 of values that are not NaN.
\<close>

theorem scenario_values:
  "metric_call do_metric_reduction (MSEMetric (Mode MR_MEAN)) (full [1, 1, 2, 2] (Fin 1)) (full [1, 1, 2, 2] (Fin 3))
     = Inr (scalar (Fin 4), scalar (Fin 1)) \<and>
   metric_call do_metric_reduction (MAEMetric (Mode MR_MEAN)) (full [1, 1, 2, 2] (Fin 1)) (full [1, 1, 2, 2] (Fin 3))
     = Inr (scalar (Fin 2), scalar (Fin 1)) \<and>
   metric_call do_metric_reduction (RMSEMetric (Mode MR_MEAN)) (full [1, 1, 2, 2] (Fin 1)) (full [1, 1, 2, 2] (Fin 3))
     = Inr (scalar (Fin 2), scalar (Fin 1)) \<and>
   metric_call do_metric_reduction (PSNRMetric (Fin 255) (Mode MR_MEAN)) (full [1, 1, 2, 2] (Fin 1)) (full [1, 1, 2, 2] (Fin 3))
     = Inr (scalar (Fin (20 * log 10 255 - 10 * log 10 4)), scalar (Fin 1)) \<and>
   42.105 < 20 * log 10 255 - 10 * log 10 (4::real) \<and>
   20 * log 10 255 - 10 * log 10 (4::real) < 42.115"
  by (intro conjI call_mean_single mse_of_scenario mae_of_scenario rmse_of_scenario psnr_of_scenario
      check_shape_full psnr_bounds) simp_all

section \<open>The handlers\<close>

lemma import_of_handler_fails:
  "exec_stmt client_env [] (ImportFrom ''monai.handlers.regression_metrics'' [c]) =
     Inl (ImportError ''MSEMetricTraining'', [])"
proof -
  have l: "load_regression =
     Loaded [''math'', ''ABC'', ''abstractmethod'', ''partial'', ''Any'', ''Union'', ''torch'',
             ''do_metric_reduction'', ''MetricReduction'', ''RegressionMetric'', ''MSEMetric'',
             ''MAEMetric'', ''RMSEMetric'', ''PSNRMetric'', ''compute_mean_error_metrics'']"
    by (simp add: load_regression_def regression_module_def)
  have b: "regression_metrics = Broken (ImportError ''MSEMetricTraining'')"
    by (simp add: regression_metrics_def load_regression_metrics_def regression_metrics_module_def
        adapter_env_def l)
  have "client_env ''monai.handlers.regression_metrics'' = Broken (ImportError ''MSEMetricTraining'')"
    by (simp add: client_env_def b)
  then show ?thesis by simp
qed

text \<open>
  C8: each of the four handlers MeanSquaredError, MeanAbsoluteError, RootMeanSquaredError
  and PeakSignalToNoiseRatio is written to build its own metric with reduction mode
  none and to hand it on with the user's output transform. None of them can be
  constructed, though: the import of the adapter module raises the import error for
  \<^verbatim>\<open>MSEMetricTraining\<close>, whatever the arguments, so no handler ever accumulates a
  per-sample tensor.
\<close>

theorem handlers_cannot_be_constructed:
  "MeanSquaredError ot dev sd = Inl (ImportError ''MSEMetricTraining'') \<and>
   MeanAbsoluteError ot dev sd = Inl (ImportError ''MSEMetricTraining'') \<and>
   RootMeanSquaredError ot dev sd = Inl (ImportError ''MSEMetricTraining'') \<and>
   PeakSignalToNoiseRatio max_val ot dev sd = Inl (ImportError ''MSEMetricTraining'') \<and>
   metric_fn (MeanSquaredError_init ot dev sd) = MSEMetric (Mode MR_NONE) \<and>
   metric_fn (MeanAbsoluteError_init ot dev sd) = MAEMetric (Mode MR_NONE) \<and>
   metric_fn (RootMeanSquaredError_init ot dev sd) = RMSEMetric (Mode MR_NONE) \<and>
   metric_fn (PeakSignalToNoiseRatio_init max_val ot dev sd) = PSNRMetric max_val (Mode MR_NONE) \<and>
   output_transform (MeanSquaredError_init ot dev sd) = ot \<and>
   output_transform (MeanAbsoluteError_init ot dev sd) = ot \<and>
   output_transform (RootMeanSquaredError_init ot dev sd) = ot \<and>
   output_transform (PeakSignalToNoiseRatio_init max_val ot dev sd) = ot"
  unfolding MeanSquaredError_def MeanAbsoluteError_def RootMeanSquaredError_def
    PeakSignalToNoiseRatio_def new_handler_def import_of_handler_fails
  by (simp add: MeanSquaredError_init_def MeanAbsoluteError_init_def
      RootMeanSquaredError_init_def PeakSignalToNoiseRatio_init_def)

section \<open>Loading the adapter module\<close>

text \<open>
  C9: the adapter module imports \<^verbatim>\<open>MSEMetricTraining\<close> and \<^verbatim>\<open>MAEMetricTraining\<close> from the
  metric module, whose body binds neither name. Loading the adapter module therefore
  ends with an import error at \<^verbatim>\<open>MSEMetricTraining\<close>, the first of the two, when the
  names bound are those of the imports before it and no handler class.
\<close>

theorem adapter_module_fails_to_load:
  "load_regression =
     Loaded [''math'', ''ABC'', ''abstractmethod'', ''partial'', ''Any'', ''Union'', ''torch'',
             ''do_metric_reduction'', ''MetricReduction'', ''RegressionMetric'', ''MSEMetric'',
             ''MAEMetric'', ''RMSEMetric'', ''PSNRMetric'', ''compute_mean_error_metrics''] \<and>
   \<not> provides load_regression ''MSEMetricTraining'' \<and>
   \<not> provides load_regression ''MAEMetricTraining'' \<and>
   load_regression_metrics =
     Inl (ImportError ''MSEMetricTraining'',
          [''Callable'', ''Union'', ''torch'', ''IterationMetric'', ''MAEMetric'', ''MSEMetric'',
           ''PSNRMetric'', ''RMSEMetric'']) \<and>
   (\<exists>ns. load_regression_metrics = Inl (ImportError ''MSEMetricTraining'', ns) \<and>
         set ns \<inter> set handler_classes = {})"
proof -
  have l: "load_regression =
     Loaded [''math'', ''ABC'', ''abstractmethod'', ''partial'', ''Any'', ''Union'', ''torch'',
             ''do_metric_reduction'', ''MetricReduction'', ''RegressionMetric'', ''MSEMetric'',
             ''MAEMetric'', ''RMSEMetric'', ''PSNRMetric'', ''compute_mean_error_metrics'']"
    by (simp add: load_regression_def regression_module_def)
  have m: "load_regression_metrics =
     Inl (ImportError ''MSEMetricTraining'',
          [''Callable'', ''Union'', ''torch'', ''IterationMetric'', ''MAEMetric'', ''MSEMetric'',
           ''PSNRMetric'', ''RMSEMetric''])"
    by (simp add: load_regression_metrics_def regression_metrics_module_def adapter_env_def l)
  show ?thesis
    unfolding m unfolding l by (simp add: handler_classes_def)
qed

end
